theory Spec2Isabelle
  imports Main "HOL-Library.AList"
begin

section \<open>The in-memory pairing servers (server.js and the unnamed variant part\_000)\<close>

text \<open>
  Two of the three server variants keep their pairing sessions in a JavaScript \<open>Map\<close>
  from code to session object. Definitions shared by both carry the source's name;
  where the two files differ, the definition taken from \<open>server.js\<close> ends in
  \<open>_server\<close> and the one taken from \<open>src/unnamed/part_000\<close> ends in \<open>_part000\<close>.

  The environment of one handler run is explicit: \<open>random E k\<close> stands for the
  \<open>k\<close>-th call of \<open>Math.random()\<close> (a natural number, reduced modulo the factor the
  source multiplies with before \<open>Math.floor\<close>), \<open>now E\<close> is \<open>Date.now()\<close> in milliseconds
  (one instant per handler run) and \<open>randomBytes E i\<close> is the \<open>i\<close>-th byte of
  \<open>crypto.randomBytes(3)\<close>. \<open>frames E\<close> is the room the engine's call stack has left
  when the run first calls \<open>generateAlphanumericCode\<close>: the number of further nested calls
  that still fit. The value depends on the engine and its settings, so it is a parameter.
\<close>

subsection \<open>Configuration\<close>

definition CODE_LENGTH :: nat where
  "CODE_LENGTH = 8"

definition CODE_EXPIRY_MINUTES :: nat where
  "CODE_EXPIRY_MINUTES = 10"

definition SESSION_PREFIX :: string where
  "SESSION_PREFIX = ''IAN TECH''"

text \<open>The delay \<open>CONFIG.CODE_EXPIRY_MINUTES * 60 * 1000\<close> used for \<open>expiresAt\<close> and the timer.\<close>

definition expiryMs :: nat where
  "expiryMs = CODE_EXPIRY_MINUTES * 60 * 1000"

record env =
  random :: "nat \<Rightarrow> nat"
  now :: nat
  randomBytes :: "nat \<Rightarrow> nat"
  frames :: nat

text \<open>
  The one exception the in-memory servers can raise in a run: the engine's
  \<open>RangeError: Maximum call stack size exceeded\<close>. A call that throws is \<open>Inl\<close> of the
  error and of what the run had changed by then; a call that returns is \<open>Inr\<close>.
\<close>

datatype error = RangeError

subsection \<open>Strings\<close>

definition digitChar :: "nat \<Rightarrow> char" where
  "digitChar d = ''0123456789'' ! d"

text \<open>\<open>Number.prototype.toString()\<close> on a non-negative integer: its decimal digits.\<close>

fun toString :: "nat \<Rightarrow> string" where
  "toString n = (if n < 10 then [digitChar n] else toString (n div 10) @ [digitChar (n mod 10)])"

declare toString.simps [simp del]

text \<open>\<open>s.slice(-k)\<close>: the last \<open>k\<close> characters, the whole string when it is shorter.\<close>

definition sliceLast :: "nat \<Rightarrow> string \<Rightarrow> string" where
  "sliceLast k s = drop (length s - k) s"

definition endsWith :: "string \<Rightarrow> string \<Rightarrow> bool" where
  "endsWith s suffix = (length suffix \<le> length s \<and> drop (length s - length suffix) s = suffix)"

definition hexDigitUpper :: "nat \<Rightarrow> char" where
  "hexDigitUpper d = ''0123456789ABCDEF'' ! d"

definition hexDigitLower :: "nat \<Rightarrow> char" where
  "hexDigitLower d = ''0123456789abcdef'' ! d"

text \<open>The character classes of the regular expressions \<open>/[A-Z]/\<close> and \<open>/[0-9]/\<close>.\<close>

definition isUpper :: "char \<Rightarrow> bool" where
  "isUpper c = (65 \<le> (of_char c :: nat) \<and> (of_char c :: nat) \<le> 90)"

definition isDigit :: "char \<Rightarrow> bool" where
  "isDigit c = (48 \<le> (of_char c :: nat) \<and> (of_char c :: nat) \<le> 57)"

subsection \<open>The code generator\<close>

definition chars :: string where
  "chars = ''ABCDEFGHIJKLMNOPQRSTUVWXYZ0123456789''"

text \<open>
  The \<open>for\<close> loop of \<open>generateAlphanumericCode\<close>: \<open>CODE_LENGTH\<close> characters, the \<open>i\<close>-th
  one \<open>chars.charAt(Math.floor(Math.random() * chars.length))\<close>, drawn from the calls
  \<open>p, p + 1, ...\<close> of the random source.
\<close>

definition sample :: "(nat \<Rightarrow> nat) \<Rightarrow> nat \<Rightarrow> string" where
  "sample rnd p = map (\<lambda>i. chars ! (rnd (p + i) mod length chars)) [0..<CODE_LENGTH]"

definition hasLetters :: "string \<Rightarrow> bool" where
  "hasLetters code = list_ex isUpper code"

definition hasNumbers :: "string \<Rightarrow> bool" where
  "hasNumbers code = list_ex isDigit code"

text \<open>
  \<open>generateAlphanumericCode\<close> calls itself when the sample lacks a letter or lacks a digit.
  The self-call is an ordinary call (\<open>return generateAlphanumericCode()\<close> is not optimised
  away by Node), so every resampling takes one more stack frame: with room for \<open>d\<close> more
  nested calls, the call that would be the \<open>d + 1\<close>-st throws \<open>RangeError\<close>. The second
  component of either result is the number of random calls consumed so far.
\<close>

fun generateAlphanumericCode :: "(nat \<Rightarrow> nat) \<Rightarrow> nat \<Rightarrow> nat \<Rightarrow> (error \<times> nat) + (string \<times> nat)" where
  "generateAlphanumericCode rnd d p =
     (if \<not> hasLetters (sample rnd p) \<or> \<not> hasNumbers (sample rnd p)
      then (case d of
              0 \<Rightarrow> Inl (RangeError, p + CODE_LENGTH)
            | Suc d' \<Rightarrow> generateAlphanumericCode rnd d' (p + CODE_LENGTH))
      else Inr (sample rnd p, p + CODE_LENGTH))"

declare generateAlphanumericCode.simps [simp del]

definition hexByteUpper :: "nat \<Rightarrow> string" where
  "hexByteUpper b = [hexDigitUpper (b div 16), hexDigitUpper (b mod 16)]"

definition generateSessionId :: "env \<Rightarrow> string" where
  "generateSessionId E =
     SESSION_PREFIX @ ''_'' @ toString (now E) @ ''_'' @
     concat (map (\<lambda>i. hexByteUpper (randomBytes E i mod 256)) [0..<3])"

subsection \<open>Sessions, timers and the global state\<close>

text \<open>
  The session object stored by \<open>part_000\<close>; \<open>server.js\<close> stores two more fields. Dates are
  milliseconds; \<open>null\<close> is \<open>None\<close>. \<open>status\<close> is the JavaScript string.
\<close>

record session =
  code :: string
  phoneNumber :: "string option"
  sessionId :: string
  status :: string
  createdAt :: nat
  expiresAt :: nat
  linkedAt :: "nat option"
  linkedTo :: "string option"
  attempts :: nat

record session_qr = session +
  qrData :: "string option"
  qrImage :: "string option"

text \<open>
  \<open>setTimeout(f, d)\<close> appends \<open>(now + d, f)\<close> to the pending timers. The two callbacks
  the servers schedule are the expiry closure of one code and \<open>initWhatsApp\<close>.
\<close>

datatype timer = ExpireCode string | InitWhatsApp

text \<open>
  The module-level variables. \<open>pairingCodes\<close> is the \<open>Map\<close>, as its entries in insertion
  order: \<open>map_of\<close> is \<open>get\<close>, \<open>AList.update\<close> is \<open>set\<close> (an existing key keeps its place),
  \<open>AList.delete\<close> is \<open>delete\<close>. \<open>authFiles\<close> are the file names in the \<open>auth_info\<close>
  directory, \<open>rndPos\<close> counts the calls of \<open>Math.random()\<close> made so far.
\<close>

record 'a state =
  pairingCodes :: "(string \<times> 'a) list"
  botStatus :: string
  currentQR :: "string option"
  qrImageDataUrl :: "string option"
  authFiles :: "string list"
  timers :: "(nat \<times> timer) list"
  rndPos :: nat

record 'a state_srv = "'a state" +
  lastGeneratedCode :: "string option"

subsection \<open>Creating a session\<close>

text \<open>
  \<open>generateNewPairingCode\<close> of \<open>server.js\<close>: one sample, stored under its code. When the
  generator throws, nothing has been assigned yet; only random calls were made.
\<close>

definition generateNewPairingCode_server ::
  "env \<Rightarrow> string option \<Rightarrow> session_qr state_srv
   \<Rightarrow> (error \<times> session_qr state_srv) + ((string \<times> string \<times> nat) \<times> session_qr state_srv)" where
  "generateNewPairingCode_server E phone st =
     (case generateAlphanumericCode (random E) (frames E) (rndPos st) of
        Inl (e, p') \<Rightarrow> Inl (e, st\<lparr>rndPos := p'\<rparr>)
      | Inr (c, p') \<Rightarrow>
          Inr ((c, generateSessionId E, now E + expiryMs),
               st\<lparr>pairingCodes :=
                    AList.update c
                      \<lparr>code = c, phoneNumber = phone, sessionId = generateSessionId E,
                       status = ''pending'', createdAt = now E, expiresAt = now E + expiryMs,
                       linkedAt = None, linkedTo = None, attempts = 0,
                       qrData = currentQR st, qrImage = qrImageDataUrl st\<rparr>
                      (pairingCodes st),
                  timers := timers st @ [(now E + expiryMs, ExpireCode c)],
                  rndPos := p',
                  lastGeneratedCode := Some c\<rparr>))"

text \<open>
  The \<open>do ... while (pairingCodes.has(code) && attempts < 10)\<close> loop of \<open>part_000\<close>. The
  result is the last sample, the value of \<open>attempts\<close> and the random calls consumed. Every
  call of the generator starts from the same stack depth.
\<close>

function doWhile ::
  "(nat \<Rightarrow> nat) \<Rightarrow> nat \<Rightarrow> (string \<times> 'a) list \<Rightarrow> nat \<Rightarrow> nat \<Rightarrow> (error \<times> nat) + (string \<times> nat \<times> nat)" where
  "doWhile rnd d store p n =
     (case generateAlphanumericCode rnd d p of
        Inl e \<Rightarrow> Inl e
      | Inr (c, p') \<Rightarrow>
          if map_of store c \<noteq> None \<and> Suc n < 10
          then doWhile rnd d store p' (Suc n)
          else Inr (c, Suc n, p'))"
  by pat_completeness auto
termination
  by (relation "measure (\<lambda>(rnd, d, store, p, n). 10 - n)") auto

declare doWhile.simps [simp del]

text \<open>
  \<open>generateNewPairingCode\<close> of \<open>part_000\<close>: after ten attempts the code is a fresh sample
  followed by \<open>'_'\<close> and \<open>Date.now().toString().slice(-4)\<close>. The map is assigned only after
  the code is chosen, so a throw leaves everything but the count of random calls alone.
\<close>

definition pickCode_part000 :: "env \<Rightarrow> (string \<times> 'a) list \<Rightarrow> nat \<Rightarrow> (error \<times> nat) + (string \<times> nat)" where
  "pickCode_part000 E store p =
     (case doWhile (random E) (frames E) store p 0 of
        Inl e \<Rightarrow> Inl e
      | Inr (c, n, p') \<Rightarrow>
          if n \<ge> 10
          then (case generateAlphanumericCode (random E) (frames E) p' of
                  Inl e \<Rightarrow> Inl e
                | Inr (c', p'') \<Rightarrow> Inr (c' @ ''_'' @ sliceLast 4 (toString (now E)), p''))
          else Inr (c, p'))"

definition generateNewPairingCode_part000 ::
  "env \<Rightarrow> string option \<Rightarrow> session state
   \<Rightarrow> (error \<times> session state) + ((string \<times> string \<times> nat) \<times> session state)" where
  "generateNewPairingCode_part000 E phone st =
     (case pickCode_part000 E (pairingCodes st) (rndPos st) of
        Inl (e, p') \<Rightarrow> Inl (e, st\<lparr>rndPos := p'\<rparr>)
      | Inr (c, p') \<Rightarrow>
          Inr ((c, generateSessionId E, now E + expiryMs),
               st\<lparr>pairingCodes :=
                    AList.update c
                      \<lparr>code = c, phoneNumber = phone, sessionId = generateSessionId E,
                       status = ''pending'', createdAt = now E, expiresAt = now E + expiryMs,
                       linkedAt = None, linkedTo = None, attempts = 0\<rparr>
                      (pairingCodes st),
                  timers := timers st @ [(now E + expiryMs, ExpireCode c)],
                  rndPos := p'\<rparr>))"

text \<open>
  The closure both variants pass to \<open>setTimeout\<close> in \<open>generateNewPairingCode\<close>: delete the
  entry of the code if there is one and its status is \<open>'pending'\<close>.
\<close>

definition expire :: "string \<Rightarrow> ('a session_scheme, 'b) state_scheme \<Rightarrow> ('a session_scheme, 'b) state_scheme" where
  "expire c st =
     (case map_of (pairingCodes st) c of
        None \<Rightarrow> st
      | Some d \<Rightarrow>
          if status d = ''pending''
          then st\<lparr>pairingCodes := AList.delete c (pairingCodes st)\<rparr>
          else st)"

subsection \<open>Connection events\<close>

text \<open>
  The argument of the \<open>connection.update\<close> handler: \<open>connection\<close>, \<open>qr\<close> and
  \<open>lastDisconnect?.error?.output?.statusCode\<close> (\<open>None\<close> is \<open>undefined\<close>).
\<close>

record update =
  connection :: "string option"
  qr :: "string option"
  statusCode :: "nat option"

text \<open>
  \<open>DisconnectReason\<close> comes from the Baileys library, which is not part of the
  repository; the three members \<open>server.js\<close> reads are a parameter.
\<close>

record disconnectReason =
  connectionClosed :: nat
  connectionLost :: nat
  loggedOut :: nat

text \<open>
  The body of \<open>for (const [code, data] of pairingCodes.entries())\<close> in the \<open>open\<close> branch,
  over the entries still to visit and the map: a pending entry is changed by \<open>mark\<close> and
  stored again under its code.
\<close>

fun linkLoop ::
  "('a session_scheme \<Rightarrow> 'a session_scheme) \<Rightarrow> (string \<times> 'a session_scheme) list
   \<Rightarrow> (string \<times> 'a session_scheme) list \<Rightarrow> (string \<times> 'a session_scheme) list" where
  "linkLoop mark [] s = s"
| "linkLoop mark ((c, d) # es) s =
     (if status d = ''pending'' then linkLoop mark es (AList.update c (mark d) s)
      else linkLoop mark es s)"

definition mark_server :: "nat \<Rightarrow> 'a session_scheme \<Rightarrow> 'a session_scheme" where
  "mark_server t d = d\<lparr>status := ''linked'', linkedAt := Some t\<rparr>"

definition mark_part000 :: "nat \<Rightarrow> string option \<Rightarrow> 'a session_scheme \<Rightarrow> 'a session_scheme" where
  "mark_part000 t uid d = d\<lparr>status := ''linked'', linkedAt := Some t, linkedTo := uid\<rparr>"

text \<open>The \<open>open\<close> branch; \<open>uid\<close> is \<open>sock.user?.id\<close>.\<close>

definition onOpen_server :: "env \<Rightarrow> ('a session_scheme, 'b) state_scheme \<Rightarrow> ('a session_scheme, 'b) state_scheme" where
  "onOpen_server E st =
     st\<lparr>botStatus := ''online'',
        pairingCodes := linkLoop (mark_server (now E)) (pairingCodes st) (pairingCodes st)\<rparr>"

definition onOpen_part000 :: "env \<Rightarrow> string option \<Rightarrow> ('a session_scheme, 'b) state_scheme \<Rightarrow> ('a session_scheme, 'b) state_scheme" where
  "onOpen_part000 E uid st =
     st\<lparr>botStatus := ''online'',
        pairingCodes := linkLoop (mark_part000 (now E) uid) (pairingCodes st) (pairingCodes st)\<rparr>"

text \<open>
  The \<open>close\<close> branch of \<open>server.js\<close>: on \<open>loggedOut\<close> the \<open>.json\<close> files of the auth
  directory are unlinked; on every other status code \<open>initWhatsApp\<close> is scheduled in
  five seconds. \<open>botStatus\<close> is not assigned.
\<close>

definition onClose_server ::
  "env \<Rightarrow> disconnectReason \<Rightarrow> nat option \<Rightarrow> ('a, 'b) state_scheme \<Rightarrow> ('a, 'b) state_scheme" where
  "onClose_server E DR sc st =
     (let st1 =
        (if sc = Some (connectionClosed DR) then st
         else if sc = Some (connectionLost DR) then st
         else if sc = Some (loggedOut DR)
           then st\<lparr>authFiles := filter (\<lambda>f. \<not> endsWith f ''.json'') (authFiles st)\<rparr>
         else st)
      in if sc \<noteq> Some (loggedOut DR)
         then st1\<lparr>timers := timers st1 @ [(now E + 5000, InitWhatsApp)]\<rparr>
         else st1)"

text \<open>\<open>cleanAuthFolder\<close> of \<open>part_000\<close>: the directory is removed and created again.\<close>

definition cleanAuthFolder :: "('a, 'b) state_scheme \<Rightarrow> ('a, 'b) state_scheme" where
  "cleanAuthFolder st = st\<lparr>authFiles := []\<rparr>"

text \<open>
  The \<open>close\<close> branch of \<open>part_000\<close>: on status code 401 the auth folder is cleaned and
  \<open>initWhatsApp\<close> is scheduled in three seconds; otherwise \<open>botStatus\<close> becomes
  \<open>'reconnecting'\<close> and \<open>initWhatsApp\<close> is scheduled in ten seconds.
\<close>

definition onClose_part000 :: "env \<Rightarrow> nat option \<Rightarrow> ('a, 'b) state_scheme \<Rightarrow> ('a, 'b) state_scheme" where
  "onClose_part000 E sc st =
     (if sc = Some 401
      then (let st1 = cleanAuthFolder st
            in st1\<lparr>timers := timers st1 @ [(now E + 3000, InitWhatsApp)]\<rparr>)
      else st\<lparr>botStatus := ''reconnecting'',
              timers := timers st @ [(now E + 10000, InitWhatsApp)]\<rparr>)"

text \<open>
  The \<open>qr\<close> branch. \<open>toDataURL\<close> is \<open>QRCode.toDataURL\<close>, \<open>None\<close> when it throws. In
  \<open>server.js\<close> a sample pairing code is generated after the image, inside the same \<open>try\<close>:
  the \<open>catch\<close> only logs, whichever of the two calls threw.
\<close>

definition onQR_part000 :: "(string \<Rightarrow> string option) \<Rightarrow> string \<Rightarrow> ('a, 'b) state_scheme \<Rightarrow> ('a, 'b) state_scheme" where
  "onQR_part000 toDataURL q st =
     (let st1 = st\<lparr>currentQR := Some q, botStatus := ''qr_ready''\<rparr>
      in case toDataURL q of
           None \<Rightarrow> st1
         | Some img \<Rightarrow> st1\<lparr>qrImageDataUrl := Some img\<rparr>)"

definition onQR_server ::
  "env \<Rightarrow> (string \<Rightarrow> string option) \<Rightarrow> string \<Rightarrow> session_qr state_srv \<Rightarrow> session_qr state_srv" where
  "onQR_server E toDataURL q st =
     (let st1 = st\<lparr>currentQR := Some q, botStatus := ''qr_ready''\<rparr>
      in case toDataURL q of
           None \<Rightarrow> st1
         | Some img \<Rightarrow>
             (case generateNewPairingCode_server E None (st1\<lparr>qrImageDataUrl := Some img\<rparr>) of
                Inl (e, st2) \<Rightarrow> st2
              | Inr (r, st2) \<Rightarrow> st2\<lparr>lastGeneratedCode := Some (fst r)\<rparr>))"

text \<open>The whole handler: the three \<open>if\<close> statements in the order of the source.\<close>

definition connection_update_part000 ::
  "env \<Rightarrow> (string \<Rightarrow> string option) \<Rightarrow> string option \<Rightarrow> update \<Rightarrow> session state \<Rightarrow> session state" where
  "connection_update_part000 E toDataURL uid u st =
     (let st1 = (case qr u of
                   None \<Rightarrow> st
                 | Some q \<Rightarrow> if q = [] then st else onQR_part000 toDataURL q st);
          st2 = (if connection u = Some ''open'' then onOpen_part000 E uid st1 else st1)
      in if connection u = Some ''close'' then onClose_part000 E (statusCode u) st2 else st2)"

definition connection_update_server ::
  "env \<Rightarrow> disconnectReason \<Rightarrow> (string \<Rightarrow> string option) \<Rightarrow> update \<Rightarrow> session_qr state_srv \<Rightarrow> session_qr state_srv" where
  "connection_update_server E DR toDataURL u st =
     (let st1 = (case qr u of
                   None \<Rightarrow> st
                 | Some q \<Rightarrow> if q = [] then st else onQR_server E toDataURL q st);
          st2 = (if connection u = Some ''open'' then onOpen_server E st1 else st1)
      in if connection u = Some ''close'' then onClose_server E DR (statusCode u) st2 else st2)"

subsection \<open>The periodic cleanup of part\_000\<close>

text \<open>
  The body of the \<open>setInterval\<close> callback: every entry with \<open>now > expiresAt\<close> and status
  \<open>'pending'\<close> is deleted by its code and counted. The loop runs over the entries still
  to visit, the map and the counter \<open>cleaned\<close>.
\<close>

fun sweepLoop ::
  "nat \<Rightarrow> (string \<times> 'a session_scheme) list \<Rightarrow> (string \<times> 'a session_scheme) list \<times> nat
   \<Rightarrow> (string \<times> 'a session_scheme) list \<times> nat" where
  "sweepLoop t [] acc = acc"
| "sweepLoop t ((c, d) # es) (s, cleaned) =
     (if t > expiresAt d \<and> status d = ''pending''
      then sweepLoop t es (AList.delete c s, cleaned + 1)
      else sweepLoop t es (s, cleaned))"

definition sweep :: "nat \<Rightarrow> ('a session_scheme, 'b) state_scheme \<Rightarrow> ('a session_scheme, 'b) state_scheme" where
  "sweep t st = st\<lparr>pairingCodes := fst (sweepLoop t (pairingCodes st) (pairingCodes st, 0))\<rparr>"

subsection \<open>The endpoint POST /generate-code\<close>

text \<open>
  The request body's \<open>phoneNumber\<close> is a string or absent. The check is
  \<open>!phoneNumber || !/^[0-9]{9}$/.test(phoneNumber)\<close>.
\<close>

definition phoneRejected :: "string option \<Rightarrow> bool" where
  "phoneRejected ph =
     (case ph of
        None \<Rightarrow> True
      | Some s \<Rightarrow> s = [] \<or> \<not> (length s = 9 \<and> list_all isDigit s))"

datatype response =
  Failure string
  | Success string string string nat

text \<open>
  \<open>Success code phoneNumber sessionId expiresAt\<close> is the \<open>success: true\<close> answer. The last
  branch is the handler's \<open>catch\<close>: an exception out of \<open>generateNewPairingCode\<close> is
  answered with \<open>success: false\<close>.
\<close>

definition generate_code_server ::
  "env \<Rightarrow> string option \<Rightarrow> session_qr state_srv \<Rightarrow> response \<times> session_qr state_srv" where
  "generate_code_server E ph st =
     (if phoneRejected ph
      then (Failure ''Please enter a valid 9-digit phone number'', st)
      else if botStatus st \<noteq> ''qr_ready'' \<and> botStatus st \<noteq> ''online''
      then (Failure ''WhatsApp connection not ready. Please wait for QR code...'', st)
      else (case generateNewPairingCode_server E (Some (''+254'' @ the ph)) st of
              Inl (e, st') \<Rightarrow> (Failure ''Error generating pairing code'', st')
            | Inr ((c, sid, ex), st') \<Rightarrow> (Success c (''+254'' @ the ph) sid ex, st')))"

definition generate_code_part000 ::
  "env \<Rightarrow> string option \<Rightarrow> session state \<Rightarrow> response \<times> session state" where
  "generate_code_part000 E ph st =
     (if phoneRejected ph
      then (Failure ''Please enter a valid 9-digit phone number'', st)
      else if botStatus st \<noteq> ''qr_ready'' \<and> botStatus st \<noteq> ''online''
      then (Failure ''WhatsApp connection not ready. Please scan QR code first.'', st)
      else (case generateNewPairingCode_part000 E (Some (''+254'' @ the ph)) st of
              Inl (e, st') \<Rightarrow> (Failure ''Error generating code'', st')
            | Inr ((c, sid, ex), st') \<Rightarrow> (Success c (''+254'' @ the ph) sid ex, st')))"

section \<open>The database-backed pairing server (pairing-server.js)\<close>

text \<open>
  The two MongoDB collections are lists of documents. Field names carry the prefix
  \<open>pc_\<close> (model \<open>PairingCode\<close>) or \<open>bs_\<close> (model \<open>BotSession\<close>), since the in-memory
  session already owns the plain names. The schema's unique indexes on \<open>fullNumber\<close>,
  \<open>pairingCode\<close> and \<open>sessionId\<close> are enforced by \<open>save\<close>; the background deletion of
  documents past \<open>expiresAt\<close> (the TTL index) belongs to the database and is not part
  of a request.
\<close>

record pairingDoc =
  pc_phoneNumber :: string
  pc_countryCode :: string
  pc_fullNumber :: string
  pc_pairingCode :: string
  pc_sessionId :: string
  pc_status :: string
  pc_ipAddress :: "string option"
  pc_userAgent :: "string option"
  pc_expiresAt :: nat
  pc_createdAt :: nat
  pc_linkedAt :: "nat option"

record botDoc =
  bs_sessionId :: string
  bs_phoneNumber :: string
  bs_status :: string
  bs_createdAt :: "nat option"
  bs_lastActive :: "nat option"

record db =
  PairingCode :: "pairingDoc list"
  BotSession :: "botDoc list"
  db_rndPos :: nat

text \<open>\<open>Model.findOne(filter)\<close>: the first document that matches.\<close>

definition findOne :: "('a \<Rightarrow> bool) \<Rightarrow> 'a list \<Rightarrow> 'a option" where
  "findOne P docs = find P docs"

text \<open>\<open>Model.findOneAndUpdate(filter, change)\<close>: the first match is changed in place.\<close>

fun updateFirst :: "('a \<Rightarrow> bool) \<Rightarrow> ('a \<Rightarrow> 'a) \<Rightarrow> 'a list \<Rightarrow> 'a list" where
  "updateFirst P f [] = []"
| "updateFirst P f (d # ds) = (if P d then f d # ds else d # updateFirst P f ds)"

text \<open>
  The \<open>while (!isUnique)\<close> loop of \<open>POST /api/generate-code\<close>: a six-digit number
  \<open>Math.floor(100000 + Math.random() * 900000)\<close> is drawn until no pending document
  carries it. Nothing bounds the loop.
\<close>

partial_function (option) uniqueCode :: "(nat \<Rightarrow> nat) \<Rightarrow> pairingDoc list \<Rightarrow> nat \<Rightarrow> (string \<times> nat) option" where
  "uniqueCode rnd docs p =
     (if findOne (\<lambda>d. pc_pairingCode d = toString (100000 + rnd p mod 900000) \<and> pc_status d = ''pending'') docs \<noteq> None
      then uniqueCode rnd docs (Suc p)
      else Some (toString (100000 + rnd p mod 900000), Suc p))"

definition hexByteLower :: "nat \<Rightarrow> string" where
  "hexByteLower b = [hexDigitLower (b div 16), hexDigitLower (b mod 16)]"

definition botSessionId :: "env \<Rightarrow> string" where
  "botSessionId E =
     ''IAN_TECH_'' @ toString (now E) @ ''_'' @
     concat (map (\<lambda>i. hexByteLower (randomBytes E i mod 256)) [0..<3])"

text \<open>The request of \<open>POST /api/generate-code\<close>: the body and the two headers it stores.\<close>

record request =
  rq_phoneNumber :: "string option"
  rq_countryCode :: "string option"
  rq_ip :: "string option"
  rq_userAgent :: "string option"

datatype api_response =
  BadRequest string
  | ExistingCode string string nat
  | NewCode string string string nat
  | InternalError

text \<open>
  The handler. \<open>ExistingCode pairingCode fullNumber expiresAt\<close> is the answer "Using
  existing active code", \<open>NewCode pairingCode fullNumber sessionId expiresAt\<close> the answer
  after both documents were saved, \<open>InternalError\<close> the status 500 of the \<open>catch\<close>
  (a \<open>save\<close> refused by a unique index). The check of the number is
  \<open>!phoneNumber || !phoneNumber.match(/^[0-9]{9,12}$/)\<close>.
\<close>

definition phoneInvalid :: "string option \<Rightarrow> bool" where
  "phoneInvalid ph =
     (case ph of
        None \<Rightarrow> True
      | Some s \<Rightarrow> s = [] \<or> \<not> (9 \<le> length s \<and> length s \<le> 12 \<and> list_all isDigit s))"

definition api_generate_code :: "env \<Rightarrow> request \<Rightarrow> db \<Rightarrow> (api_response \<times> db) option" where
  "api_generate_code E rq D =
     (if phoneInvalid (rq_phoneNumber rq)
      then Some (BadRequest ''Invalid phone number format. Please enter 9-12 digits.'', D)
      else
        (let phone = the (rq_phoneNumber rq);
             cc = (case rq_countryCode rq of None \<Rightarrow> ''+254'' | Some c \<Rightarrow> c);
             fullNumber = cc @ filter isDigit phone
         in case findOne (\<lambda>d. pc_fullNumber d = fullNumber \<and> pc_status d = ''pending'' \<and> pc_expiresAt d > now E)
                   (PairingCode D) of
              Some existingCode \<Rightarrow>
                Some (ExistingCode (pc_pairingCode existingCode) (pc_fullNumber existingCode)
                        (pc_expiresAt existingCode), D)
            | None \<Rightarrow>
                (case uniqueCode (random E) (PairingCode D) (db_rndPos D) of
                   None \<Rightarrow> None
                 | Some (pairingCode, p') \<Rightarrow>
                     (let pairingRecord =
                            \<lparr>pc_phoneNumber = phone, pc_countryCode = cc, pc_fullNumber = fullNumber,
                             pc_pairingCode = pairingCode, pc_sessionId = botSessionId E,
                             pc_status = ''pending'', pc_ipAddress = rq_ip rq,
                             pc_userAgent = rq_userAgent rq,
                             pc_expiresAt = now E + 10 * 60 * 1000, pc_createdAt = now E,
                             pc_linkedAt = None\<rparr>;
                          D1 = D\<lparr>db_rndPos := p'\<rparr>
                      in if list_ex (\<lambda>d. pc_fullNumber d = fullNumber \<or> pc_pairingCode d = pairingCode)
                              (PairingCode D)
                         then Some (InternalError, D1)
                         else
                           (let D2 = D1\<lparr>PairingCode := PairingCode D1 @ [pairingRecord]\<rparr>
                            in if list_ex (\<lambda>b. bs_sessionId b = botSessionId E) (BotSession D2)
                               then Some (InternalError, D2)
                               else Some (NewCode pairingCode fullNumber (botSessionId E)
                                            (pc_expiresAt pairingRecord),
                                          D2\<lparr>BotSession := BotSession D2 @
                                               [\<lparr>bs_sessionId = botSessionId E, bs_phoneNumber = fullNumber,
                                                 bs_status = ''pending'', bs_createdAt = Some (now E),
                                                 bs_lastActive = None\<rparr>]\<rparr>))))))"

text \<open>
  \<open>POST /api/pairing-linked/:code\<close>: the document with that pairing code gets status
  \<open>'active'\<close> and \<open>linkedAt = now\<close>, whatever its status was; then the bot session with
  its session id is set active. \<open>False\<close> is the answer 404.
\<close>

definition api_pairing_linked :: "env \<Rightarrow> string \<Rightarrow> db \<Rightarrow> bool \<times> db" where
  "api_pairing_linked E c D =
     (case findOne (\<lambda>d. pc_pairingCode d = c) (PairingCode D) of
        None \<Rightarrow> (False, D)
      | Some d \<Rightarrow>
          (True,
           D\<lparr>PairingCode :=
                updateFirst (\<lambda>d. pc_pairingCode d = c)
                  (\<lambda>d. d\<lparr>pc_status := ''active'', pc_linkedAt := Some (now E)\<rparr>) (PairingCode D),
              BotSession :=
                updateFirst (\<lambda>b. bs_sessionId b = pc_sessionId d)
                  (\<lambda>b. b\<lparr>bs_status := ''active'', bs_lastActive := Some (now E)\<rparr>) (BotSession D)\<rparr>))"

text \<open>\<open>GET /api/pairing-status/:code\<close>: the document with that pairing code, if any.\<close>

definition api_pairing_status :: "string \<Rightarrow> db \<Rightarrow> pairingDoc option" where
  "api_pairing_status c D = findOne (\<lambda>d. pc_pairingCode d = c) (PairingCode D)"

text \<open>
  \<open>verifyPairingCodeInBot\<close>: the status is read, and only a pending code is marked as
  linked. The result is \<open>valid\<close> and the database.
\<close>

definition verifyPairingCodeInBot :: "env \<Rightarrow> string \<Rightarrow> db \<Rightarrow> bool \<times> db" where
  "verifyPairingCodeInBot E c D =
     (case api_pairing_status c D of
        None \<Rightarrow> (False, D)
      | Some d \<Rightarrow>
          if pc_status d = ''pending'' then (True, snd (api_pairing_linked E c D)) else (False, D))"

section \<open>Predicates of the specification and example inputs\<close>

text \<open>What a call returned, and \<open>None\<close> when it threw.\<close>

definition returned :: "'e + 'a \<Rightarrow> 'a option" where
  "returned r = (case r of Inl e \<Rightarrow> None | Inr a \<Rightarrow> Some a)"

text \<open>A sample passes the generator's test when it has a letter and a digit.\<close>

definition good :: "string \<Rightarrow> bool" where
  "good c = (hasLetters c \<and> hasNumbers c)"

text \<open>
  Random sources: one that always draws index 0 (the letter A), and one that
  alternates between index 0 and index 26 (the digit 0).
\<close>

definition rndAllA :: "nat \<Rightarrow> nat" where
  "rndAllA i = 0"

definition rndAlt :: "nat \<Rightarrow> nat" where
  "rndAlt i = (if even i then 0 else 26)"

text \<open>A source whose first two samples are all A and whose later samples alternate.\<close>

definition rndLate :: "nat \<Rightarrow> nat" where
  "rndLate i = (if i < 16 then 0 else rndAlt i)"

text \<open>
  An environment with room for 7900 nested calls, three sessions (one pending and due exactly at the environment's
  instant, one linked, one pending and overdue), a state of \<open>part_000\<close> holding them, and
  the values Baileys gives the members of \<open>DisconnectReason\<close>.
\<close>

definition envEx :: env where
  "envEx = \<lparr>random = rndAlt, now = 1700000001234, randomBytes = (\<lambda>i. 171), frames = 7900\<rparr>"

text \<open>The same environment with the random source that only draws the letter A.\<close>

definition envAllA :: env where
  "envAllA = \<lparr>random = rndAllA, now = 1700000001234, randomBytes = (\<lambda>i. 171), frames = 7900\<rparr>"

definition sessEx :: "string \<Rightarrow> string \<Rightarrow> nat \<Rightarrow> nat option \<Rightarrow> session" where
  "sessEx c s ex la =
     \<lparr>code = c, phoneNumber = Some ''+254723278526'', sessionId = ''IAN TECH_1_ABABAB'', status = s,
      createdAt = ex - 600000, expiresAt = ex, linkedAt = la, linkedTo = None, attempts = 0\<rparr>"

definition stEx :: "session state" where
  "stEx =
     \<lparr>pairingCodes =
        [(''A0A0A0A0'', sessEx ''A0A0A0A0'' ''pending'' 1700000001234 None),
         (''B1B1B1B1'', sessEx ''B1B1B1B1'' ''linked'' 1700000000000 (Some 1699999900000)),
         (''C2C2C2C2'', sessEx ''C2C2C2C2'' ''pending'' 1700000000000 None)],
      botStatus = ''online'', currentQR = None, qrImageDataUrl = None,
      authFiles = [''creds.json'', ''notes.txt''], timers = [], rndPos = 0\<rparr>"

definition drEx :: disconnectReason where
  "drEx = \<lparr>connectionClosed = 428, connectionLost = 408, loggedOut = 401\<rparr>"

text \<open>A fresh state of \<open>server.js\<close> with a QR code on display, and an empty state of \<open>part_000\<close>.\<close>

definition stSrv :: "session_qr state_srv" where
  "stSrv =
     \<lparr>pairingCodes = [], botStatus = ''qr_ready'', currentQR = Some ''2@qr-payload'',
      qrImageDataUrl = Some ''data:image/png;base64,AAAA'', authFiles = [''creds.json''],
      timers = [], rndPos = 0, lastGeneratedCode = None\<rparr>"

definition stEmpty :: "session state" where
  "stEmpty =
     \<lparr>pairingCodes = [], botStatus = ''online'', currentQR = None, qrImageDataUrl = None,
      authFiles = [''creds.json''], timers = [], rndPos = 0\<rparr>"

text \<open>
  The shape C4 asks of a code: length \<open>CODE_LENGTH\<close>, a letter, a digit, every character
  from \<open>chars\<close>.
\<close>

definition validCode :: "string \<Rightarrow> bool" where
  "validCode c = (length c = CODE_LENGTH \<and> hasLetters c \<and> hasNumbers c \<and> list_all (\<lambda>x. x \<in> set chars) c)"

text \<open>A state of \<open>part_000\<close> that already holds a plain code and a code with a suffix.\<close>

definition stTaken :: "session state" where
  "stTaken =
     \<lparr>pairingCodes =
        [(''A0A0A0A0'', sessEx ''A0A0A0A0'' ''pending'' 1700000500000 None),
         (''A0A0A0A0_1234'', sessEx ''A0A0A0A0_1234'' ''linked'' 1700000400000 (Some 1700000000000))],
      botStatus = ''online'', currentQR = None, qrImageDataUrl = None,
      authFiles = [''creds.json''], timers = [], rndPos = 0\<rparr>"

text \<open>A state of \<open>server.js\<close> before any connection.\<close>

definition stDisc :: "session_qr state_srv" where
  "stDisc =
     \<lparr>pairingCodes = [], botStatus = ''disconnected'', currentQR = None, qrImageDataUrl = None,
      authFiles = [], timers = [], rndPos = 0, lastGeneratedCode = None\<rparr>"

text \<open>
  A database with one pending pairing document that is still valid at the example
  instant and one document whose code was used, and a request for the first number.
\<close>

definition docEx :: "string \<Rightarrow> string \<Rightarrow> string \<Rightarrow> nat \<Rightarrow> nat option \<Rightarrow> pairingDoc" where
  "docEx ph pc s ex la =
     \<lparr>pc_phoneNumber = ph, pc_countryCode = ''+254'', pc_fullNumber = ''+254'' @ ph,
      pc_pairingCode = pc, pc_sessionId = ''IAN_TECH_1_'' @ pc, pc_status = s,
      pc_ipAddress = None, pc_userAgent = None,
      pc_expiresAt = ex, pc_createdAt = ex - 600000, pc_linkedAt = la\<rparr>"

definition dbEx :: db where
  "dbEx =
     \<lparr>PairingCode =
        [docEx ''723278526'' ''482913'' ''pending'' 1700000301234 None,
         docEx ''700000002'' ''651077'' ''used'' 1700000401234 (Some 1699999990000)],
      BotSession =
        [\<lparr>bs_sessionId = ''IAN_TECH_1_482913'', bs_phoneNumber = ''+254723278526'',
          bs_status = ''pending'', bs_createdAt = Some 1699999701234, bs_lastActive = None\<rparr>,
         \<lparr>bs_sessionId = ''IAN_TECH_1_651077'', bs_phoneNumber = ''+254700000002'',
          bs_status = ''active'', bs_createdAt = Some 1699999801234, bs_lastActive = Some 1699999990000\<rparr>],
      db_rndPos = 0\<rparr>"

definition rqEx :: request where
  "rqEx = \<lparr>rq_phoneNumber = Some ''723278526'', rq_countryCode = None,
            rq_ip = Some ''10.0.0.7'', rq_userAgent = Some ''Mozilla/5.0''\<rparr>"

section \<open>The code generator\<close>

lemma gen_good:
  "good (sample rnd p) \<Longrightarrow> generateAlphanumericCode rnd d p = Inr (sample rnd p, p + CODE_LENGTH)"
  by (subst generateAlphanumericCode.simps) (simp add: good_def)

lemma gen_bad_Suc:
  "\<not> good (sample rnd p) \<Longrightarrow>
   generateAlphanumericCode rnd (Suc d) p = generateAlphanumericCode rnd d (p + CODE_LENGTH)"
  by (subst generateAlphanumericCode.simps) (auto simp add: good_def)

lemma gen_bad_0:
  "\<not> good (sample rnd p) \<Longrightarrow> generateAlphanumericCode rnd 0 p = Inl (RangeError, p + CODE_LENGTH)"
  by (subst generateAlphanumericCode.simps) (auto simp add: good_def)

lemma gen_first_good:
  "(\<forall>j<k. \<not> good (sample rnd (p + CODE_LENGTH * j))) \<Longrightarrow> good (sample rnd (p + CODE_LENGTH * k))
   \<Longrightarrow> k \<le> d
   \<Longrightarrow> generateAlphanumericCode rnd d p = Inr (sample rnd (p + CODE_LENGTH * k), p + CODE_LENGTH * Suc k)"
proof (induction k arbitrary: p d)
  case 0
  then show ?case by (simp add: gen_good)
next
  case (Suc k)
  from Suc.prems(3) obtain d' where d: "d = Suc d'" and le: "k \<le> d'" by (cases d) auto
  have bad: "\<not> good (sample rnd p)" using Suc.prems(1)[rule_format, of 0] by simp
  have later: "\<forall>j<k. \<not> good (sample rnd (p + CODE_LENGTH + CODE_LENGTH * j))"
  proof (intro allI impI)
    fix j assume "j < k"
    then have "Suc j < Suc k" by simp
    from Suc.prems(1)[rule_format, OF this] have "\<not> good (sample rnd (p + CODE_LENGTH * Suc j))" .
    then show "\<not> good (sample rnd (p + CODE_LENGTH + CODE_LENGTH * j))" by (simp add: add.assoc)
  qed
  have "good (sample rnd (p + CODE_LENGTH + CODE_LENGTH * k))" using Suc.prems(2) by (simp add: add.assoc)
  from Suc.IH[OF later this le] show ?case by (simp add: d gen_bad_Suc[OF bad] add.assoc)
qed

lemma gen_all_bad:
  "(\<forall>k\<le>d. \<not> good (sample rnd (p + CODE_LENGTH * k)))
   \<Longrightarrow> generateAlphanumericCode rnd d p = Inl (RangeError, p + CODE_LENGTH * Suc d)"
proof (induction d arbitrary: p)
  case 0
  then show ?case by (simp add: gen_bad_0)
next
  case (Suc d)
  have bad: "\<not> good (sample rnd p)" using Suc.prems[rule_format, of 0] by simp
  have "\<forall>k\<le>d. \<not> good (sample rnd (p + CODE_LENGTH + CODE_LENGTH * k))"
  proof (intro allI impI)
    fix k assume "k \<le> d"
    then have "Suc k \<le> Suc d" by simp
    from Suc.prems[rule_format, OF this] show "\<not> good (sample rnd (p + CODE_LENGTH + CODE_LENGTH * k))"
      by (simp add: add.assoc)
  qed
  from Suc.IH[OF this] show ?case by (simp add: gen_bad_Suc[OF bad] add.assoc)
qed

lemma gen_Inr:
  "generateAlphanumericCode rnd d p = Inr y \<Longrightarrow>
   \<exists>k\<le>d. y = (sample rnd (p + CODE_LENGTH * k), p + CODE_LENGTH * Suc k)
       \<and> good (sample rnd (p + CODE_LENGTH * k))
       \<and> (\<forall>j<k. \<not> good (sample rnd (p + CODE_LENGTH * j)))"
proof (induction d arbitrary: p)
  case 0
  show ?case
  proof (cases "good (sample rnd p)")
    case True
    with 0 show ?thesis by (simp add: gen_good)
  next
    case False
    with 0 show ?thesis by (simp add: gen_bad_0)
  qed
next
  case (Suc d)
  show ?case
  proof (cases "good (sample rnd p)")
    case True
    with Suc.prems have "y = (sample rnd p, p + CODE_LENGTH)" by (simp add: gen_good)
    with True show ?thesis by (intro exI[of _ 0]) simp
  next
    case False
    with Suc.prems have "generateAlphanumericCode rnd d (p + CODE_LENGTH) = Inr y"
      by (simp add: gen_bad_Suc)
    from Suc.IH[OF this] obtain k where k: "k \<le> d"
      "y = (sample rnd (p + CODE_LENGTH + CODE_LENGTH * k), p + CODE_LENGTH + CODE_LENGTH * Suc k)"
      "good (sample rnd (p + CODE_LENGTH + CODE_LENGTH * k))"
      "\<forall>j<k. \<not> good (sample rnd (p + CODE_LENGTH + CODE_LENGTH * j))" by blast
    have "\<forall>j<Suc k. \<not> good (sample rnd (p + CODE_LENGTH * j))"
    proof (intro allI impI)
      fix j assume j: "j < Suc k"
      show "\<not> good (sample rnd (p + CODE_LENGTH * j))"
      proof (cases j)
        case 0 with False show ?thesis by simp
      next
        case (Suc i)
        with j k(4) have "\<not> good (sample rnd (p + CODE_LENGTH + CODE_LENGTH * i))" by simp
        with Suc show ?thesis by (simp add: add.assoc)
      qed
    qed
    with k(1,2,3) show ?thesis by (intro exI[of _ "Suc k"]) (simp add: add.assoc)
  qed
qed

lemma gen_Inl:
  "generateAlphanumericCode rnd d p = Inl x \<Longrightarrow>
   x = (RangeError, p + CODE_LENGTH * Suc d) \<and> (\<forall>k\<le>d. \<not> good (sample rnd (p + CODE_LENGTH * k)))"
proof (cases "\<forall>k\<le>d. \<not> good (sample rnd (p + CODE_LENGTH * k))")
  case True
  assume "generateAlphanumericCode rnd d p = Inl x"
  with gen_all_bad[OF True] True show ?thesis by simp
next
  case False
  assume a: "generateAlphanumericCode rnd d p = Inl x"
  from False obtain k0 where "k0 \<le> d" "good (sample rnd (p + CODE_LENGTH * k0))" by blast
  then have ex: "\<exists>k. good (sample rnd (p + CODE_LENGTH * k))" by blast
  define k where "k = (LEAST k. good (sample rnd (p + CODE_LENGTH * k)))"
  from ex have g: "good (sample rnd (p + CODE_LENGTH * k))" unfolding k_def by (rule LeastI_ex)
  have le: "k \<le> k0" unfolding k_def using \<open>good (sample rnd (p + CODE_LENGTH * k0))\<close> by (rule Least_le)
  have "\<forall>j<k. \<not> good (sample rnd (p + CODE_LENGTH * j))"
    unfolding k_def using not_less_Least by blast
  from gen_first_good[OF this g] le \<open>k0 \<le> d\<close> a show ?thesis by simp
qed

lemma upt8: "[0..<8] = [0, 1, 2, 3, 4, 5, 6, 7]"
  by code_simp

lemma sample_rndAllA: "sample rndAllA p = ''AAAAAAAA''"
  by (simp add: sample_def rndAllA_def chars_def CODE_LENGTH_def upt8)

lemma sample_rndAlt_even: "even p \<Longrightarrow> sample rndAlt p = ''A0A0A0A0''"
  by (simp add: sample_def rndAlt_def chars_def CODE_LENGTH_def upt8)

lemma sample_rndAlt_odd: "odd p \<Longrightarrow> sample rndAlt p = ''0A0A0A0A''"
  by (simp add: sample_def rndAlt_def chars_def CODE_LENGTH_def upt8)

lemma not_good_AAAAAAAA: "\<not> good ''AAAAAAAA''"
  by (simp add: good_def hasNumbers_def isDigit_def)

lemma good_A0A0A0A0: "good ''A0A0A0A0''"
  by (simp add: good_def hasNumbers_def hasLetters_def isDigit_def isUpper_def)

lemma good_0A0A0A0A: "good ''0A0A0A0A''"
  by (simp add: good_def hasNumbers_def hasLetters_def isDigit_def isUpper_def)

lemma good_rndAlt: "good (sample rndAlt p)"
  by (cases "even p") (simp_all add: sample_rndAlt_even sample_rndAlt_odd good_A0A0A0A0 good_0A0A0A0A)

lemma gen_rndAlt_even: "even p \<Longrightarrow> generateAlphanumericCode rndAlt d p = Inr (''A0A0A0A0'', p + 8)"
  using gen_good[OF good_rndAlt, of d p] by (simp add: sample_rndAlt_even CODE_LENGTH_def)

lemma gen_rndAllA: "generateAlphanumericCode rndAllA d p = Inl (RangeError, p + 8 * Suc d)"
  using gen_all_bad[of d rndAllA p] by (simp add: sample_rndAllA not_good_AAAAAAAA CODE_LENGTH_def)

lemma doWhile_attempts:
  "doWhile rnd d store p n = Inr (c, m, p') \<Longrightarrow> n < m \<and> (n < 10 \<longrightarrow> m \<le> 10)"
proof (induction rnd d store p n rule: doWhile.induct)
  case (1 rnd d store p n)
  from "1.prems" obtain c1 p1 where g: "generateAlphanumericCode rnd d p = Inr (c1, p1)"
    by (subst (asm) doWhile.simps) (auto split: sum.splits)
  show ?case
  proof (cases "map_of store c1 \<noteq> None \<and> Suc n < 10")
    case True
    with "1.prems" g have "doWhile rnd d store p1 (Suc n) = Inr (c, m, p')"
      by (subst (asm) doWhile.simps) simp
    from "1.IH"[OF g refl True this] True show ?thesis by auto
  next
    case False
    with "1.prems" g have "m = Suc n" by (subst (asm) doWhile.simps) auto
    then show ?thesis by auto
  qed
qed

lemma pickCode_ten_suffix:
  "doWhile (random E) (frames E) store p 0 = Inr (c0, 10, p1) \<Longrightarrow> pickCode_part000 E store p = Inr (c, q)
   \<Longrightarrow> \<exists>c'. c = c' @ ''_'' @ sliceLast 4 (toString (now E))"
  by (auto simp add: pickCode_part000_def split: sum.splits)

lemma doWhile_first_throw:
  "(\<forall>k\<le>d. \<not> good (sample rnd (p + CODE_LENGTH * k)))
   \<Longrightarrow> doWhile rnd d store p n = Inl (RangeError, p + CODE_LENGTH * Suc d)"
  by (subst doWhile.simps) (simp add: gen_all_bad)

lemma create_part000_rndAllA:
  "generateNewPairingCode_part000 envAllA ph st = Inl (RangeError, st\<lparr>rndPos := rndPos st + 63208\<rparr>)"
proof -
  have "\<forall>k\<le>7900. \<not> good (sample rndAllA (rndPos st + CODE_LENGTH * k))"
    by (simp add: sample_rndAllA not_good_AAAAAAAA)
  from doWhile_first_throw[OF this, of "pairingCodes st" 0] show ?thesis
    by (simp add: generateNewPairingCode_part000_def pickCode_part000_def envAllA_def CODE_LENGTH_def)
qed

text \<open>
  C3, as stated, fails. With a random source that only ever draws the letter A no sample
  has a digit: \<open>generateAlphanumericCode\<close> resamples until the call stack is full (here
  after 7901 samples) and throws \<open>RangeError\<close>. No retry cap stops it earlier and no code
  with a timestamp suffix comes back, from the generator or from \<open>generateNewPairingCode\<close>
  of \<open>part_000\<close>.
\<close>

theorem generateAlphanumericCode_counterexample:
  "generateAlphanumericCode rndAllA 7900 0 = Inl (RangeError, 63208)
   \<and> generateNewPairingCode_part000 envAllA None stEmpty = Inl (RangeError, stEmpty\<lparr>rndPos := 63208\<rparr>)"
  by (simp add: gen_rndAllA create_part000_rndAllA stEmpty_def)

text \<open>
  C3, amended. The letter-and-digit test of \<open>generateAlphanumericCode\<close> has no retry cap
  and no fallback. The function resamples by calling itself: it returns the first sample
  that has a letter and a digit when that sample comes while the call stack lasts, and it
  throws \<open>RangeError\<close> when the stack is full first, so a run ends after at most one
  sample more than the stack has room for nested calls. The counter that stops at ten
  belongs to the collision loop of \<open>part_000\<close>: when that loop returns it has made between
  one and ten attempts, and after ten attempts the code carries the timestamp suffix.
\<close>

theorem generateAlphanumericCode_first_good:
  "((\<forall>j<k. \<not> good (sample rnd (p + CODE_LENGTH * j))) \<and> good (sample rnd (p + CODE_LENGTH * k)) \<and> k \<le> d
      \<longrightarrow> generateAlphanumericCode rnd d p = Inr (sample rnd (p + CODE_LENGTH * k), p + CODE_LENGTH * Suc k))
   \<and> ((\<forall>k\<le>d. \<not> good (sample rnd (p + CODE_LENGTH * k)))
      \<longrightarrow> generateAlphanumericCode rnd d p = Inl (RangeError, p + CODE_LENGTH * Suc d))
   \<and> (doWhile rnd d store p 0 = Inr (c, n, p') \<longrightarrow> 1 \<le> n \<and> n \<le> 10)
   \<and> (doWhile (random E) (frames E) store p 0 = Inr (c0, 10, p1) \<and> pickCode_part000 E store p = Inr (c2, q)
      \<longrightarrow> (\<exists>c'. c2 = c' @ ''_'' @ sliceLast 4 (toString (now E))))"
  using gen_first_good[of k rnd p d] gen_all_bad[of d rnd p] doWhile_attempts[of rnd d store p 0 c n p']
    pickCode_ten_suffix[of E store p c0 p1 c2 q]
  by auto


lemma doWhile_rndAlt_free:
  "even p \<Longrightarrow> map_of store ''A0A0A0A0'' = None \<Longrightarrow>
   doWhile rndAlt d store p n = Inr (''A0A0A0A0'', Suc n, p + 8)"
  by (subst doWhile.simps) (simp add: gen_rndAlt_even)

lemma doWhile_rndAlt_taken:
  "even p \<Longrightarrow> map_of store ''A0A0A0A0'' \<noteq> None \<Longrightarrow> Suc n < 10 \<Longrightarrow>
   doWhile rndAlt d store p n = doWhile rndAlt d store (p + 8) (Suc n)"
  by (subst doWhile.simps) (simp add: gen_rndAlt_even)

lemma doWhile_rndAlt_last:
  "even p \<Longrightarrow> \<not> Suc n < 10 \<Longrightarrow> doWhile rndAlt d store p n = Inr (''A0A0A0A0'', Suc n, p + 8)"
  by (subst doWhile.simps) (simp add: gen_rndAlt_even)

lemma doWhile_rndAlt_ten:
  "even p \<Longrightarrow> map_of store ''A0A0A0A0'' \<noteq> None \<Longrightarrow>
   doWhile rndAlt d store p 0 = Inr (''A0A0A0A0'', 10, p + 80)"
  by (simp add: doWhile_rndAlt_taken doWhile_rndAlt_last)

lemma sliceLast_envEx: "sliceLast 4 (toString (now envEx)) = ''1234''"
  by (simp add: sliceLast_def envEx_def toString.simps digitChar_def)

lemma pickCode_rndAlt_taken:
  "even p \<Longrightarrow> map_of store ''A0A0A0A0'' \<noteq> None \<Longrightarrow>
   pickCode_part000 envEx store p = Inr (''A0A0A0A0_1234'', p + 88)"
proof -
  assume p: "even p" and m: "map_of store ''A0A0A0A0'' \<noteq> None"
  have r: "random envEx = rndAlt" by (simp add: envEx_def)
  from p have "even (p + 80)" by simp
  from gen_rndAlt_even[OF this] doWhile_rndAlt_ten[OF p m] show ?thesis
    by (simp add: pickCode_part000_def r sliceLast_envEx)
qed

lemma pickCode_rndAlt_free:
  "random E = rndAlt \<Longrightarrow> even p \<Longrightarrow> map_of store ''A0A0A0A0'' = None \<Longrightarrow>
   pickCode_part000 E store p = Inr (''A0A0A0A0'', p + 8)"
  by (simp add: pickCode_part000_def doWhile_rndAlt_free)

lemma sample_rndLate_0: "sample rndLate 0 = ''AAAAAAAA''"
  by (simp add: sample_def rndLate_def chars_def CODE_LENGTH_def upt8)

lemma sample_rndLate_8: "sample rndLate 8 = ''AAAAAAAA''"
  by (simp add: sample_def rndLate_def chars_def CODE_LENGTH_def upt8)

lemma sample_rndLate_16: "sample rndLate 16 = ''A0A0A0A0''"
  by (simp add: sample_def rndLate_def rndAlt_def chars_def CODE_LENGTH_def upt8)

text \<open>
  On the alternating source the first sample is returned at once. On the source whose
  third sample is the first usable one, a stack with room for 7900 nested calls returns
  it, and a stack with room for one nested call throws before reaching it. On an empty
  map the collision loop stops after one attempt; on the example state it makes ten
  attempts and the chosen code carries the suffix.
\<close>

theorem generateAlphanumericCode_first_good_witness:
  "generateAlphanumericCode rndAlt 7900 0 = Inr (''A0A0A0A0'', 8)
   \<and> generateAlphanumericCode rndLate 7900 0 = Inr (''A0A0A0A0'', 24)
   \<and> generateAlphanumericCode rndLate 1 0 = Inl (RangeError, 16)
   \<and> doWhile rndAlt 7900 ([] :: (string \<times> session) list) 0 0 = Inr (''A0A0A0A0'', 1, 8)
   \<and> doWhile (random envEx) (frames envEx) (pairingCodes stEx) 0 0 = Inr (''A0A0A0A0'', 10, 80)
   \<and> pickCode_part000 envEx (pairingCodes stEx) 0 = Inr (''A0A0A0A0_1234'', 88)"
proof -
  have a: "even (0::nat)" "map_of (pairingCodes stEx) ''A0A0A0A0'' \<noteq> None"
    by (simp_all add: stEx_def)
  have d1: "doWhile rndAlt 7900 ([] :: (string \<times> session) list) 0 0 = Inr (''A0A0A0A0'', 1, 8)"
    using doWhile_rndAlt_free[of 0 "[] :: (string \<times> session) list" 7900 0] by simp
  have d2: "doWhile (random envEx) (frames envEx) (pairingCodes stEx) 0 0 = Inr (''A0A0A0A0'', 10, 80)"
    using doWhile_rndAlt_ten[OF a, of "frames envEx"] by (simp add: envEx_def)
  have p2: "pickCode_part000 envEx (pairingCodes stEx) 0 = Inr (''A0A0A0A0_1234'', 88)"
    using pickCode_rndAlt_taken[OF a] by simp
  have b2: "\<forall>j<2. \<not> good (sample rndLate (0 + CODE_LENGTH * j))"
  proof (intro allI impI)
    fix j :: nat assume "j < 2"
    then have "j = 0 \<or> j = 1" by auto
    then show "\<not> good (sample rndLate (0 + CODE_LENGTH * j))"
      by (auto simp add: CODE_LENGTH_def sample_rndLate_0 sample_rndLate_8 not_good_AAAAAAAA)
  qed
  have b1: "\<forall>k\<le>1. \<not> good (sample rndLate (0 + CODE_LENGTH * k))"
  proof (intro allI impI)
    fix k :: nat assume "k \<le> 1"
    then have "k = 0 \<or> k = 1" by auto
    then show "\<not> good (sample rndLate (0 + CODE_LENGTH * k))"
      by (auto simp add: CODE_LENGTH_def sample_rndLate_0 sample_rndLate_8 not_good_AAAAAAAA)
  qed
  have g2: "good (sample rndLate (0 + CODE_LENGTH * 2))"
    by (simp add: CODE_LENGTH_def sample_rndLate_16 good_A0A0A0A0)
  have w1: "generateAlphanumericCode rndAlt 7900 0 = Inr (''A0A0A0A0'', 8)"
    using generateAlphanumericCode_first_good[where k = 0 and rnd = rndAlt and p = 0 and d = 7900
        and store = "pairingCodes stEx" and c = "''A0A0A0A0''" and n = 10 and p' = 80
        and E = envEx and ?c0.0 = "''A0A0A0A0''" and ?p1.0 = 80 and ?c2.0 = "''A0A0A0A0_1234''" and q = 88,
        THEN conjunct1]
    by (simp add: sample_rndAlt_even good_A0A0A0A0 CODE_LENGTH_def)
  have w2: "generateAlphanumericCode rndLate 7900 0 = Inr (''A0A0A0A0'', 24)"
    using generateAlphanumericCode_first_good[where k = 2 and rnd = rndLate and p = 0 and d = 7900
        and store = "pairingCodes stEx" and c = "''A0A0A0A0''" and n = 10 and p' = 80
        and E = envEx and ?c0.0 = "''A0A0A0A0''" and ?p1.0 = 80 and ?c2.0 = "''A0A0A0A0_1234''" and q = 88,
        THEN conjunct1] b2 g2
    by (simp add: sample_rndLate_16 CODE_LENGTH_def)
  have w3: "generateAlphanumericCode rndLate 1 0 = Inl (RangeError, 16)"
    using generateAlphanumericCode_first_good[where k = 2 and rnd = rndLate and p = 0 and d = 1
        and store = "pairingCodes stEx" and c = "''A0A0A0A0''" and n = 10 and p' = 80
        and E = envEx and ?c0.0 = "''A0A0A0A0''" and ?p1.0 = 80 and ?c2.0 = "''A0A0A0A0_1234''" and q = 88,
        THEN conjunct2, THEN conjunct1] b1
    by (simp add: CODE_LENGTH_def)
  from w1 w2 w3 d1 d2 p2 show ?thesis by simp
qed

section \<open>The loops over the map\<close>

text \<open>
  Both loops visit every entry once. With distinct keys (a \<open>Map\<close> has no others) the
  entries already visited are the ones already changed, which gives each loop a closed
  form.
\<close>

lemma update_mid:
  "c \<notin> fst ` set xs \<Longrightarrow> AList.update c v (xs @ (c, d) # ys) = xs @ (c, v) # ys"
  by (induction xs) auto

lemma linkLoop_prefix:
  "distinct (map fst (pre @ es)) \<Longrightarrow>
   linkLoop mark es (map (\<lambda>(c, d). (c, if status d = ''pending'' then mark d else d)) pre @ es)
   = map (\<lambda>(c, d). (c, if status d = ''pending'' then mark d else d)) (pre @ es)"
proof (induction es arbitrary: pre)
  case Nil
  then show ?case by simp
next
  case (Cons e es)
  obtain c d where e: "e = (c, d)" by (cases e)
  let ?g = "\<lambda>(c, d). (c, if status d = ''pending'' then mark d else d)"
  from Cons.prems e have notin: "c \<notin> fst ` set (map ?g pre)" by (auto simp: image_iff)
  from Cons.prems e have dist: "distinct (map fst ((pre @ [(c, d)]) @ es))" by simp
  have IH: "linkLoop mark es (map ?g (pre @ [(c, d)]) @ es) = map ?g ((pre @ [(c, d)]) @ es)"
    using Cons.IH[OF dist] .
  show ?case
  proof (cases "status d = ''pending''")
    case True
    have "linkLoop mark (e # es) (map ?g pre @ e # es)
          = linkLoop mark es (AList.update c (mark d) (map ?g pre @ (c, d) # es))"
      using True e by simp
    also have "\<dots> = linkLoop mark es (map ?g pre @ (c, mark d) # es)"
      using update_mid[OF notin] by simp
    also have "\<dots> = linkLoop mark es (map ?g (pre @ [(c, d)]) @ es)" using True by simp
    also have "\<dots> = map ?g ((pre @ [(c, d)]) @ es)" by (rule IH)
    finally show ?thesis using e by simp
  next
    case False
    have "linkLoop mark (e # es) (map ?g pre @ e # es) = linkLoop mark es (map ?g pre @ (c, d) # es)"
      using False e by simp
    also have "\<dots> = linkLoop mark es (map ?g (pre @ [(c, d)]) @ es)" using False by simp
    also have "\<dots> = map ?g ((pre @ [(c, d)]) @ es)" by (rule IH)
    finally show ?thesis using e by simp
  qed
qed

lemma linkLoop_map:
  "distinct (map fst s) \<Longrightarrow>
   linkLoop mark s s = map (\<lambda>(c, d). (c, if status d = ''pending'' then mark d else d)) s"
  using linkLoop_prefix[of "[]" s mark] by simp

lemma linkLoop_no_pending:
  "\<forall>(c, d) \<in> set es. status d \<noteq> ''pending'' \<Longrightarrow> linkLoop mark es s = s"
  by (induction es arbitrary: s) auto

lemma delete_mid:
  "c \<notin> fst ` set xs \<Longrightarrow> c \<notin> fst ` set ys \<Longrightarrow> AList.delete c (xs @ (c, d) # ys) = xs @ ys"
  by (induction xs) auto

lemma sweepLoop_prefix:
  "distinct (map fst (pre @ es)) \<Longrightarrow>
   fst (sweepLoop t es (filter (\<lambda>(c, d). \<not> (expiresAt d < t \<and> status d = ''pending'')) pre @ es, n))
   = filter (\<lambda>(c, d). \<not> (expiresAt d < t \<and> status d = ''pending'')) (pre @ es)"
proof (induction es arbitrary: pre n)
  case Nil
  then show ?case by simp
next
  case (Cons e es)
  obtain c d where e: "e = (c, d)" by (cases e)
  let ?keep = "\<lambda>(c, d). \<not> (expiresAt d < t \<and> status d = ''pending'')"
  from Cons.prems e have notin: "c \<notin> fst ` set (filter ?keep pre)" "c \<notin> fst ` set es"
    by (auto simp: image_iff)
  from Cons.prems e have dist: "distinct (map fst ((pre @ [(c, d)]) @ es))" by simp
  show ?case
  proof (cases "expiresAt d < t \<and> status d = ''pending''")
    case True
    have "AList.delete c (filter ?keep pre @ (c, d) # es) = filter ?keep pre @ es"
      using delete_mid[OF notin] .
    then have "fst (sweepLoop t (e # es) (filter ?keep pre @ e # es, n))
          = fst (sweepLoop t es (filter ?keep (pre @ [(c, d)]) @ es, n + 1))"
      using True e by simp
    also have "\<dots> = filter ?keep ((pre @ [(c, d)]) @ es)" by (rule Cons.IH[OF dist])
    finally show ?thesis using e by simp
  next
    case False
    then have "fst (sweepLoop t (e # es) (filter ?keep pre @ e # es, n))
          = fst (sweepLoop t es (filter ?keep (pre @ [(c, d)]) @ es, n))"
      using e by auto
    also have "\<dots> = filter ?keep ((pre @ [(c, d)]) @ es)" by (rule Cons.IH[OF dist])
    finally show ?thesis using e by simp
  qed
qed

section \<open>The periodic cleanup\<close>

text \<open>
  C9, as stated, fails at the boundary: the cleanup tests \<open>now > expiresAt\<close>, so a pending
  session whose \<open>expiresAt\<close> equals the instant of the pass is still in the map after it.
\<close>

theorem sweep_boundary_counterexample:
  "map_option expiresAt (map_of (pairingCodes (sweep 1700000001234 stEx)) ''A0A0A0A0'') = Some 1700000001234
   \<and> map_option status (map_of (pairingCodes (sweep 1700000001234 stEx)) ''A0A0A0A0'') = Some ''pending''"
  by (simp add: sweep_def stEx_def sessEx_def)

text \<open>
  C9, amended. A cleanup pass at instant \<open>t\<close> removes exactly the entries that are
  pending with \<open>expiresAt < t\<close>: none of them is left, and every other entry (linked, or
  with \<open>expiresAt \<ge> t\<close>) stays, in its place.
\<close>

theorem sweep_removes_expired_pending:
  "distinct (map fst (pairingCodes st)) \<Longrightarrow>
   pairingCodes (sweep t st)
   = filter (\<lambda>(c, d). \<not> (status d = ''pending'' \<and> expiresAt d < t)) (pairingCodes st)"
proof -
  assume "distinct (map fst (pairingCodes st))"
  then have "fst (sweepLoop t (pairingCodes st) (pairingCodes st, 0))
    = filter (\<lambda>(c, d). \<not> (expiresAt d < t \<and> status d = ''pending'')) (pairingCodes st)"
    using sweepLoop_prefix[of "[]" "pairingCodes st" t 0] by simp
  moreover have "(\<lambda>(c, d). \<not> (expiresAt d < t \<and> status d = ''pending''))
     = (\<lambda>(c :: string, d :: 'a session_scheme). \<not> (status d = ''pending'' \<and> expiresAt d < t))" by auto
  ultimately show ?thesis by (simp add: sweep_def)
qed

text \<open>
  In the example state a pass at the first session's own \<open>expiresAt\<close> removes the overdue
  pending session and keeps the other two.
\<close>

theorem sweep_removes_expired_pending_witness:
  "distinct (map fst (pairingCodes stEx))
   \<and> map fst (pairingCodes (sweep 1700000001234 stEx)) = [''A0A0A0A0'', ''B1B1B1B1'']"
  using sweep_removes_expired_pending[of stEx 1700000001234]
  by (simp add: stEx_def sessEx_def)

section \<open>The connection-open branch\<close>

lemma onOpen_part000_map:
  "distinct (map fst (pairingCodes st)) \<Longrightarrow>
   pairingCodes (onOpen_part000 E uid st)
   = map (\<lambda>(c, d). (c, if status d = ''pending''
                          then d\<lparr>status := ''linked'', linkedAt := Some (now E), linkedTo := uid\<rparr>
                          else d)) (pairingCodes st)"
  using linkLoop_map[of "pairingCodes st" "mark_part000 (now E) uid"]
  by (auto simp add: onOpen_part000_def mark_part000_def)

lemma onOpen_server_map:
  "distinct (map fst (pairingCodes st)) \<Longrightarrow>
   pairingCodes (onOpen_server E st)
   = map (\<lambda>(c, d). (c, if status d = ''pending''
                          then d\<lparr>status := ''linked'', linkedAt := Some (now E)\<rparr>
                          else d)) (pairingCodes st)"
  using linkLoop_map[of "pairingCodes st" "mark_server (now E)"]
  by (auto simp add: onOpen_server_def mark_server_def)

lemma onOpen_part000_no_pending:
  "distinct (map fst (pairingCodes st)) \<Longrightarrow>
   \<forall>(c, d) \<in> set (pairingCodes (onOpen_part000 E uid st)). status d \<noteq> ''pending''"
  by (auto simp add: onOpen_part000_map split: if_splits)

lemma onOpen_server_no_pending:
  "distinct (map fst (pairingCodes st)) \<Longrightarrow>
   \<forall>(c, d) \<in> set (pairingCodes (onOpen_server E st)). status d \<noteq> ''pending''"
  by (auto simp add: onOpen_server_map split: if_splits)

lemma onOpen_part000_twice:
  "distinct (map fst (pairingCodes st)) \<Longrightarrow>
   pairingCodes (onOpen_part000 E' uid' (onOpen_part000 E uid st)) = pairingCodes (onOpen_part000 E uid st)"
proof -
  assume d: "distinct (map fst (pairingCodes st))"
  have "linkLoop m (pairingCodes (onOpen_part000 E uid st)) (pairingCodes (onOpen_part000 E uid st))
        = pairingCodes (onOpen_part000 E uid st)" for m
    by (rule linkLoop_no_pending[OF onOpen_part000_no_pending[OF d]])
  then show ?thesis by (simp add: onOpen_part000_def[of E' uid'])
qed

lemma onOpen_server_twice:
  "distinct (map fst (pairingCodes st)) \<Longrightarrow>
   pairingCodes (onOpen_server E' (onOpen_server E st)) = pairingCodes (onOpen_server E st)"
proof -
  assume d: "distinct (map fst (pairingCodes st))"
  have "linkLoop m (pairingCodes (onOpen_server E st)) (pairingCodes (onOpen_server E st))
        = pairingCodes (onOpen_server E st)" for m
    by (rule linkLoop_no_pending[OF onOpen_server_no_pending[OF d]])
  then show ?thesis by (simp add: onOpen_server_def[of E'])
qed

text \<open>
  C7, as stated, fails for \<open>server.js\<close>: its \<open>open\<close> branch sets \<open>status\<close> and \<open>linkedAt\<close> of
  a pending session and never assigns \<open>linkedTo\<close>, which stays \<open>null\<close>.
\<close>

theorem onOpen_server_linkedTo_counterexample:
  "map_option status (map_of (pairingCodes (onOpen_server envEx stEx)) ''A0A0A0A0'') = Some ''linked''
   \<and> map_option linkedAt (map_of (pairingCodes (onOpen_server envEx stEx)) ''A0A0A0A0'') = Some (Some 1700000001234)
   \<and> map_option linkedTo (map_of (pairingCodes (onOpen_server envEx stEx)) ''A0A0A0A0'') = Some None"
  by (simp add: onOpen_server_def mark_server_def stEx_def sessEx_def envEx_def)

text \<open>
  C7, amended. On connection-open every session that is pending at that moment becomes
  linked with \<open>linkedAt\<close> set to the current instant, and in \<open>part_000\<close> also with
  \<open>linkedTo\<close> set to the account id (\<open>server.js\<close> leaves \<open>linkedTo\<close> alone); every other
  session is unchanged, so an already linked session keeps its \<open>linkedAt\<close>. A second
  run, at any later instant and for any account, changes no session.
\<close>

theorem onOpen_links_pending_once:
  "distinct (map fst (pairingCodes st)) \<Longrightarrow>
   pairingCodes (onOpen_part000 E uid st)
     = map (\<lambda>(c, d). (c, if status d = ''pending''
                            then d\<lparr>status := ''linked'', linkedAt := Some (now E), linkedTo := uid\<rparr>
                            else d)) (pairingCodes st)
   \<and> pairingCodes (onOpen_server E st)
     = map (\<lambda>(c, d). (c, if status d = ''pending''
                            then d\<lparr>status := ''linked'', linkedAt := Some (now E)\<rparr>
                            else d)) (pairingCodes st)
   \<and> pairingCodes (onOpen_part000 E' uid' (onOpen_part000 E uid st)) = pairingCodes (onOpen_part000 E uid st)
   \<and> pairingCodes (onOpen_server E' (onOpen_server E st)) = pairingCodes (onOpen_server E st)"
  by (simp only: onOpen_part000_map onOpen_server_map onOpen_part000_twice onOpen_server_twice simp_thms)

text \<open>
  In the example state the two pending sessions become linked with the instant and the
  account id, the linked session keeps its earlier \<open>linkedAt\<close>, and a second run changes
  nothing.
\<close>

theorem onOpen_links_pending_once_witness:
  "distinct (map fst (pairingCodes stEx))
   \<and> map (\<lambda>(c, d). (c, status d, linkedAt d, linkedTo d)) (pairingCodes (onOpen_part000 envEx (Some ''254700000000@s.whatsapp.net'') stEx))
     = [(''A0A0A0A0'', ''linked'', Some 1700000001234, Some ''254700000000@s.whatsapp.net''),
        (''B1B1B1B1'', ''linked'', Some 1699999900000, None),
        (''C2C2C2C2'', ''linked'', Some 1700000001234, Some ''254700000000@s.whatsapp.net'')]
   \<and> pairingCodes (onOpen_part000 (envEx\<lparr>now := 1700000009999\<rparr>) None (onOpen_part000 envEx (Some ''254700000000@s.whatsapp.net'') stEx))
     = pairingCodes (onOpen_part000 envEx (Some ''254700000000@s.whatsapp.net'') stEx)"
  using onOpen_links_pending_once[of stEx envEx "Some ''254700000000@s.whatsapp.net''" "envEx\<lparr>now := 1700000009999\<rparr>" None]
  by (simp add: stEx_def sessEx_def envEx_def)

section \<open>Creating a session and its expiry timer\<close>

lemma expiryMs_eq: "expiryMs = 600000"
  by (simp add: expiryMs_def CODE_EXPIRY_MINUTES_def)

lemma create_server_Some:
  "generateNewPairingCode_server E ph st = Inr ((c, sid, ex), st') \<Longrightarrow>
   \<exists>p'. generateAlphanumericCode (random E) (frames E) (rndPos st) = Inr (c, p')
     \<and> sid = generateSessionId E \<and> ex = now E + 600000
     \<and> pairingCodes st' = AList.update c
           \<lparr>code = c, phoneNumber = ph, sessionId = generateSessionId E,
            status = ''pending'', createdAt = now E, expiresAt = now E + 600000,
            linkedAt = None, linkedTo = None, attempts = 0,
            qrData = currentQR st, qrImage = qrImageDataUrl st\<rparr> (pairingCodes st)
     \<and> timers st' = timers st @ [(now E + 600000, ExpireCode c)]
     \<and> botStatus st' = botStatus st \<and> authFiles st' = authFiles st"
  by (auto simp add: generateNewPairingCode_server_def expiryMs_eq split: sum.splits)

lemma create_part000_Some:
  "generateNewPairingCode_part000 E ph st = Inr ((c, sid, ex), st') \<Longrightarrow>
   \<exists>p'. pickCode_part000 E (pairingCodes st) (rndPos st) = Inr (c, p')
     \<and> sid = generateSessionId E \<and> ex = now E + 600000
     \<and> pairingCodes st' = AList.update c
           \<lparr>code = c, phoneNumber = ph, sessionId = generateSessionId E,
            status = ''pending'', createdAt = now E, expiresAt = now E + 600000,
            linkedAt = None, linkedTo = None, attempts = 0\<rparr> (pairingCodes st)
     \<and> timers st' = timers st @ [(now E + 600000, ExpireCode c)]
     \<and> botStatus st' = botStatus st \<and> authFiles st' = authFiles st"
  by (auto simp add: generateNewPairingCode_part000_def expiryMs_eq split: sum.splits)






lemma upt3: "[0..<3] = [0, 1, 2]"
  by code_simp

lemma generateSessionId_envEx: "generateSessionId envEx = ''IAN TECH_1700000001234_ABABAB''"
  by (simp add: generateSessionId_def envEx_def SESSION_PREFIX_def toString.simps digitChar_def
      hexByteUpper_def hexDigitUpper_def upt3)

lemma create_server_envEx:
  "generateNewPairingCode_server envEx ph stSrv =
   Inr ((''A0A0A0A0'', ''IAN TECH_1700000001234_ABABAB'', 1700000601234),
         stSrv\<lparr>pairingCodes :=
                 [(''A0A0A0A0'',
                   \<lparr>code = ''A0A0A0A0'', phoneNumber = ph, sessionId = ''IAN TECH_1700000001234_ABABAB'',
                    status = ''pending'', createdAt = 1700000001234, expiresAt = 1700000601234,
                    linkedAt = None, linkedTo = None, attempts = 0,
                    qrData = Some ''2@qr-payload'', qrImage = Some ''data:image/png;base64,AAAA''\<rparr>)],
               timers := [(1700000601234, ExpireCode ''A0A0A0A0'')],
               rndPos := 8, lastGeneratedCode := Some ''A0A0A0A0''\<rparr>)"
proof -
  have g: "generateAlphanumericCode (random envEx) (frames envEx) (rndPos stSrv) = Inr (''A0A0A0A0'', 8)"
    using gen_rndAlt_even[of 0 "frames envEx"] by (simp add: envEx_def stSrv_def)
  have n: "now envEx = 1700000001234" by (simp add: envEx_def)
  show ?thesis
    unfolding generateNewPairingCode_server_def g generateSessionId_envEx n expiryMs_eq
    by (simp add: stSrv_def)
qed

lemma create_part000_envEx_empty:
  "generateNewPairingCode_part000 envEx ph stEmpty =
   Inr ((''A0A0A0A0'', ''IAN TECH_1700000001234_ABABAB'', 1700000601234),
         stEmpty\<lparr>pairingCodes :=
                 [(''A0A0A0A0'',
                   \<lparr>code = ''A0A0A0A0'', phoneNumber = ph, sessionId = ''IAN TECH_1700000001234_ABABAB'',
                    status = ''pending'', createdAt = 1700000001234, expiresAt = 1700000601234,
                    linkedAt = None, linkedTo = None, attempts = 0\<rparr>)],
               timers := [(1700000601234, ExpireCode ''A0A0A0A0'')],
               rndPos := 8\<rparr>)"
proof -
  have p: "pickCode_part000 envEx ([] :: (string \<times> session) list) 0 = Inr (''A0A0A0A0'', 8)"
    using pickCode_rndAlt_free[of envEx 0 "[] :: (string \<times> session) list"]
    by (simp add: envEx_def)
  have n: "now envEx = 1700000001234" by (simp add: envEx_def)
  have s: "pairingCodes stEmpty = []" "rndPos stEmpty = 0"
    by (simp_all add: stEmpty_def)
  show ?thesis
    unfolding generateNewPairingCode_part000_def s p generateSessionId_envEx n expiryMs_eq
    by (simp add: stEmpty_def)
qed


section \<open>The connection-close branch\<close>

text \<open>
  C5, as stated, fails. \<open>server.js\<close> never assigns \<open>botStatus\<close> on a close event: after a
  logged-out close the state is still \<open>'online'\<close>, and after any other close it is not
  \<open>'reconnecting'\<close>. \<open>part_000\<close> treats status code 401 by cleaning the auth folder and
  scheduling \<open>initWhatsApp\<close> again, with \<open>botStatus\<close> unchanged.
\<close>

theorem onClose_counterexample:
  "botStatus (onClose_server envEx drEx (Some 401) stEx) = ''online''
   \<and> timers (onClose_server envEx drEx (Some 428) stEx) = [(1700000006234, InitWhatsApp)]
   \<and> botStatus (onClose_server envEx drEx (Some 428) stEx) = ''online''
   \<and> botStatus (onClose_part000 envEx (Some 401) stEx) = ''online''
   \<and> timers (onClose_part000 envEx (Some 401) stEx) = [(1700000004234, InitWhatsApp)]"
  by (simp add: onClose_server_def onClose_part000_def cleanAuthFolder_def envEx_def drEx_def stEx_def)

text \<open>
  C5, amended. In \<open>server.js\<close> a close with reason logged-out unlinks every \<open>.json\<close> file
  of the auth directory and schedules nothing; a close with any other reason schedules
  \<open>initWhatsApp\<close> five seconds later; \<open>botStatus\<close> is unchanged in both cases. In \<open>part_000\<close>
  a close with status code 401 empties the auth folder and schedules \<open>initWhatsApp\<close> three
  seconds later with \<open>botStatus\<close> unchanged; a close with any other status code sets
  \<open>botStatus\<close> to \<open>'reconnecting'\<close> and schedules \<open>initWhatsApp\<close> ten seconds later.
\<close>

theorem onClose_behaviour:
  "(loggedOut DR \<noteq> connectionClosed DR \<and> loggedOut DR \<noteq> connectionLost DR \<longrightarrow>
      list_all (\<lambda>f. \<not> endsWith f ''.json'') (authFiles (onClose_server E DR (Some (loggedOut DR)) st))
      \<and> timers (onClose_server E DR (Some (loggedOut DR)) st) = timers st
      \<and> botStatus (onClose_server E DR (Some (loggedOut DR)) st) = botStatus st)
   \<and> (sc \<noteq> Some (loggedOut DR) \<longrightarrow>
      timers (onClose_server E DR sc st) = timers st @ [(now E + 5000, InitWhatsApp)]
      \<and> authFiles (onClose_server E DR sc st) = authFiles st
      \<and> botStatus (onClose_server E DR sc st) = botStatus st)
   \<and> authFiles (onClose_part000 E (Some 401) st) = []
   \<and> timers (onClose_part000 E (Some 401) st) = timers st @ [(now E + 3000, InitWhatsApp)]
   \<and> botStatus (onClose_part000 E (Some 401) st) = botStatus st
   \<and> (sc \<noteq> Some 401 \<longrightarrow>
      botStatus (onClose_part000 E sc st) = ''reconnecting''
      \<and> timers (onClose_part000 E sc st) = timers st @ [(now E + 10000, InitWhatsApp)]
      \<and> authFiles (onClose_part000 E sc st) = authFiles st)"
  by (auto simp add: onClose_server_def onClose_part000_def cleanAuthFolder_def Let_def list_all_iff)

text \<open>
  With the values Baileys uses: a logged-out close in \<open>server.js\<close> leaves only the file that
  is not \<open>.json\<close> and schedules nothing; a connection-lost close schedules the restart.
\<close>

theorem onClose_behaviour_witness:
  "loggedOut drEx \<noteq> connectionClosed drEx \<and> loggedOut drEx \<noteq> connectionLost drEx
   \<and> authFiles (onClose_server envEx drEx (Some (loggedOut drEx)) stEx) = [''notes.txt'']
   \<and> timers (onClose_server envEx drEx (Some (loggedOut drEx)) stEx) = []
   \<and> Some 408 \<noteq> Some (loggedOut drEx)
   \<and> timers (onClose_server envEx drEx (Some 408) stEx) = [(1700000006234, InitWhatsApp)]
   \<and> authFiles (onClose_part000 envEx (Some 401) stEx) = []
   \<and> botStatus (onClose_part000 envEx (Some 408) stEx) = ''reconnecting''
   \<and> timers (onClose_part000 envEx (Some 408) stEx) = [(1700000011234, InitWhatsApp)]"
  using onClose_behaviour[of drEx envEx stEx "Some 408"]
  by (simp add: drEx_def envEx_def stEx_def onClose_server_def endsWith_def)

section \<open>The shape of a created code\<close>

lemma sample_length: "length (sample rnd p) = CODE_LENGTH"
  by (simp add: sample_def)

lemma sample_chars: "list_all (\<lambda>x. x \<in> set chars) (sample rnd p)"
proof -
  have "length chars = 36" by (simp add: chars_def)
  then have "chars ! (n mod length chars) \<in> set chars" for n by (intro nth_mem) simp
  then show ?thesis by (simp add: sample_def list_all_iff)
qed

lemma sample_valid: "good (sample rnd p) \<Longrightarrow> validCode (sample rnd p)"
  by (simp add: validCode_def good_def sample_length sample_chars)

lemma gen_valid: "generateAlphanumericCode rnd d p = Inr (c, q) \<Longrightarrow> validCode c"
  using gen_Inr[of rnd d p "(c, q)"] sample_valid by auto

lemma doWhile_valid: "doWhile rnd d store p n = Inr (c, m, q) \<Longrightarrow> validCode c"
proof (induction rnd d store p n rule: doWhile.induct)
  case (1 rnd d store p n)
  from "1.prems" obtain c1 p1 where g: "generateAlphanumericCode rnd d p = Inr (c1, p1)"
    by (subst (asm) doWhile.simps) (auto split: sum.splits)
  show ?case
  proof (cases "map_of store c1 \<noteq> None \<and> Suc n < 10")
    case True
    with "1.prems" g have "doWhile rnd d store p1 (Suc n) = Inr (c, m, q)"
      by (subst (asm) doWhile.simps) simp
    from "1.IH"[OF g refl True this] show ?thesis .
  next
    case False
    with "1.prems" g have "c = c1" by (subst (asm) doWhile.simps) auto
    with gen_valid[OF g] show ?thesis by simp
  qed
qed

lemma toString_length_pos: "1 \<le> length (toString n)"
  by (subst toString.simps) simp

lemma toString_length_10: "10 \<le> n \<Longrightarrow> 2 \<le> length (toString n)"
  using toString_length_pos[of "n div 10"] by (subst toString.simps) simp

lemma toString_length_100: "100 \<le> n \<Longrightarrow> 3 \<le> length (toString n)"
  using toString_length_10[of "n div 10"] by (subst toString.simps) simp

lemma toString_length_1000: "1000 \<le> n \<Longrightarrow> 4 \<le> length (toString n)"
  using toString_length_100[of "n div 10"] by (subst toString.simps) simp

lemma fallback_length:
  "validCode c \<Longrightarrow> 1000 \<le> t \<Longrightarrow> length (c @ ''_'' @ sliceLast 4 (toString t)) = 13"
  using toString_length_1000[of t] by (simp add: validCode_def sliceLast_def CODE_LENGTH_def)

lemma pickCode_shape:
  assumes "pickCode_part000 E store p = Inr (c, q)"
  shows "\<exists>c0 n p1. doWhile (random E) (frames E) store p 0 = Inr (c0, n, p1)
          \<and> (if n < 10 then c = c0 \<and> validCode c
              else \<exists>c'. validCode c' \<and> c = c' @ ''_'' @ sliceLast 4 (toString (now E))
                        \<and> (1000 \<le> now E \<longrightarrow> length c = 13))"
proof -
  from assms obtain c0 n p1 where d: "doWhile (random E) (frames E) store p 0 = Inr (c0, n, p1)"
    by (auto simp add: pickCode_part000_def split: sum.splits)
  show ?thesis
  proof (cases "n < 10")
    case True
    with assms d have "c = c0" by (simp add: pickCode_part000_def)
    with doWhile_valid[OF d] True d show ?thesis by auto
  next
    case False
    with assms d obtain c' p2 where g: "generateAlphanumericCode (random E) (frames E) p1 = Inr (c', p2)"
      and c: "c = c' @ ''_'' @ sliceLast 4 (toString (now E))"
      by (auto simp add: pickCode_part000_def split: sum.splits)
    from gen_valid[OF g] have v: "validCode c'" .
    with c fallback_length[OF v] have "1000 \<le> now E \<longrightarrow> length c = 13" by simp
    with v c False d show ?thesis by auto
  qed
qed

text \<open>
  C4, amended. A code returned by \<open>generateNewPairingCode\<close> of \<open>server.js\<close> has length 8,
  a letter, a digit and only characters of the alphabet. In \<open>part_000\<close> the same holds
  when the collision loop ended before its tenth attempt; when it made ten attempts, the
  returned code is such an 8-character code followed by \<open>'_'\<close> and the last four decimal
  digits of the current time in milliseconds: 13 characters (for a time of at least
  1000 ms), one of them outside the alphabet.
\<close>

theorem created_code_shape:
  "(generateNewPairingCode_server E ph sv = Inr ((c1, sid1, ex1), sv') \<longrightarrow> validCode c1)
   \<and> (generateNewPairingCode_part000 E ph sp = Inr ((c2, sid2, ex2), sp') \<longrightarrow>
        (\<exists>c0 n p1. doWhile (random E) (frames E) (pairingCodes sp) (rndPos sp) 0 = Inr (c0, n, p1)
          \<and> (if n < 10 then c2 = c0 \<and> validCode c2
              else \<exists>c'. validCode c' \<and> c2 = c' @ ''_'' @ sliceLast 4 (toString (now E))
                        \<and> (1000 \<le> now E \<longrightarrow> length c2 = 13))))"
proof (intro conjI impI)
  assume "generateNewPairingCode_server E ph sv = Inr ((c1, sid1, ex1), sv')"
  from create_server_Some[OF this] gen_valid show "validCode c1" by blast
next
  assume "generateNewPairingCode_part000 E ph sp = Inr ((c2, sid2, ex2), sp')"
  from create_part000_Some[OF this] obtain q where "pickCode_part000 E (pairingCodes sp) (rndPos sp) = Inr (c2, q)"
    by blast
  from pickCode_shape[OF this]
  show "\<exists>c0 n p1. doWhile (random E) (frames E) (pairingCodes sp) (rndPos sp) 0 = Inr (c0, n, p1)
          \<and> (if n < 10 then c2 = c0 \<and> validCode c2
              else \<exists>c'. validCode c' \<and> c2 = c' @ ''_'' @ sliceLast 4 (toString (now E))
                        \<and> (1000 \<le> now E \<longrightarrow> length c2 = 13))" .
qed

lemma create_server_rndAlt:
  "random E = rndAlt \<Longrightarrow> even (rndPos st) \<Longrightarrow>
   generateNewPairingCode_server E ph st =
   Inr ((''A0A0A0A0'', generateSessionId E, now E + 600000),
         st\<lparr>pairingCodes :=
              AList.update ''A0A0A0A0''
                \<lparr>code = ''A0A0A0A0'', phoneNumber = ph, sessionId = generateSessionId E,
                 status = ''pending'', createdAt = now E, expiresAt = now E + 600000,
                 linkedAt = None, linkedTo = None, attempts = 0,
                 qrData = currentQR st, qrImage = qrImageDataUrl st\<rparr> (pairingCodes st),
            timers := timers st @ [(now E + 600000, ExpireCode ''A0A0A0A0'')],
            rndPos := rndPos st + 8, lastGeneratedCode := Some ''A0A0A0A0''\<rparr>)"
  by (simp add: generateNewPairingCode_server_def gen_rndAlt_even expiryMs_eq)

lemma create_part000_taken:
  "even (rndPos st) \<Longrightarrow> map_of (pairingCodes st) ''A0A0A0A0'' \<noteq> None \<Longrightarrow>
   generateNewPairingCode_part000 envEx ph st =
   Inr ((''A0A0A0A0_1234'', generateSessionId envEx, now envEx + 600000),
         st\<lparr>pairingCodes :=
              AList.update ''A0A0A0A0_1234''
                \<lparr>code = ''A0A0A0A0_1234'', phoneNumber = ph, sessionId = generateSessionId envEx,
                 status = ''pending'', createdAt = now envEx, expiresAt = now envEx + 600000,
                 linkedAt = None, linkedTo = None, attempts = 0\<rparr> (pairingCodes st),
            timers := timers st @ [(now envEx + 600000, ExpireCode ''A0A0A0A0_1234'')],
            rndPos := rndPos st + 88\<rparr>)"
  by (simp add: generateNewPairingCode_part000_def pickCode_rndAlt_taken expiryMs_eq)

lemma validCode_A0: "validCode ''A0A0A0A0''"
  by (simp add: validCode_def CODE_LENGTH_def hasLetters_def hasNumbers_def isUpper_def isDigit_def chars_def)

lemma not_validCode_fallback: "\<not> validCode ''A0A0A0A0_1234''"
  by (simp add: validCode_def CODE_LENGTH_def)

text \<open>
  C4, as stated, fails on the fallback path: when the same sample collides ten times, the
  code returned is 13 characters long and contains \<open>'_'\<close>.
\<close>

theorem fallback_code_counterexample:
  "map_option (\<lambda>r. (fst (fst r), length (fst (fst r)), validCode (fst (fst r))))
     (returned (generateNewPairingCode_part000 envEx None stEx)) = Some (''A0A0A0A0_1234'', 13, False)"
proof -
  have "even (rndPos stEx)" "map_of (pairingCodes stEx) ''A0A0A0A0'' \<noteq> None"
    by (simp_all add: stEx_def)
  from create_part000_taken[OF this] show ?thesis by (simp add: not_validCode_fallback returned_def)
qed

text \<open>
  On an empty map both variants return the plain sample; on the example state, where the
  sample is taken, \<open>part_000\<close> ends its loop at ten attempts and returns the suffixed code.
\<close>

theorem created_code_shape_witness:
  "map_option (fst \<circ> fst) (returned (generateNewPairingCode_server envEx None stSrv)) = Some ''A0A0A0A0''
   \<and> validCode ''A0A0A0A0''
   \<and> map_option (fst \<circ> fst) (returned (generateNewPairingCode_part000 envEx None stEmpty)) = Some ''A0A0A0A0''
   \<and> doWhile (random envEx) (frames envEx) (pairingCodes stEmpty) (rndPos stEmpty) 0 = Inr (''A0A0A0A0'', 1, 8)
   \<and> map_option (fst \<circ> fst) (returned (generateNewPairingCode_part000 envEx None stEx)) = Some ''A0A0A0A0_1234''
   \<and> doWhile (random envEx) (frames envEx) (pairingCodes stEx) (rndPos stEx) 0 = Inr (''A0A0A0A0'', 10, 80)"
proof -
  have a: "even (rndPos stEx)" "map_of (pairingCodes stEx) ''A0A0A0A0'' \<noteq> None"
    by (simp_all add: stEx_def)
  have d1: "doWhile (random envEx) (frames envEx) (pairingCodes stEmpty) (rndPos stEmpty) 0 = Inr (''A0A0A0A0'', 1, 8)"
    using doWhile_rndAlt_free[of 0 "[] :: (string \<times> session) list" "frames envEx" 0]
    by (simp add: envEx_def stEmpty_def)
  have d2: "doWhile (random envEx) (frames envEx) (pairingCodes stEx) (rndPos stEx) 0 = Inr (''A0A0A0A0'', 10, 80)"
    using doWhile_rndAlt_ten[OF a(1) a(2), of "frames envEx"] by (simp add: envEx_def stEx_def)
  show ?thesis
    using created_code_shape[where E = envEx and ph = None and sv = stSrv
        and ?c1.0 = "''A0A0A0A0''" and ?sid1.0 = "''IAN TECH_1700000001234_ABABAB''" and ?ex1.0 = 1700000601234
        and sv' = "snd (the (returned (generateNewPairingCode_server envEx None stSrv)))"
        and sp = stEmpty and ?c2.0 = "''A0A0A0A0''" and ?sid2.0 = "''IAN TECH_1700000001234_ABABAB''"
        and ?ex2.0 = 1700000601234
        and sp' = "snd (the (returned (generateNewPairingCode_part000 envEx None stEmpty)))"]
      d1 d2 create_part000_taken[OF a, of None]
    by (simp add: create_server_envEx create_part000_envEx_empty returned_def)
qed

section \<open>Two sessions, one code\<close>

text \<open>
  C1 at two failing inputs. In \<open>server.js\<close> nothing compares a new sample with the map:
  when the random source repeats a sample, the second request gets the code of the
  first, and the first session is overwritten. In \<open>part_000\<close> the fallback code is not
  compared with the map either: it can be the code of a session that is already linked,
  which is then replaced by the new pending one.
\<close>

theorem duplicate_code_evaluation:
  "(case generateNewPairingCode_server envEx (Some ''+254723278526'') stSrv of
      Inl thrown \<Rightarrow> False
    | Inr (r1, st1) \<Rightarrow>
        fst r1 = ''A0A0A0A0''
        \<and> map_option (\<lambda>(r2, st2). (fst r2, map (\<lambda>(c, d). (c, phoneNumber d)) (pairingCodes st2)))
             (returned (generateNewPairingCode_server (envEx\<lparr>now := 1700000005678\<rparr>) (Some ''+254700000002'') st1))
           = Some (''A0A0A0A0'', [(''A0A0A0A0'', Some ''+254700000002'')]))
   \<and> map_option status (map_of (pairingCodes stTaken) ''A0A0A0A0_1234'') = Some ''linked''
   \<and> map_option (\<lambda>(r, st'). (fst r, map (\<lambda>(c, d). (c, status d)) (pairingCodes st')))
        (returned (generateNewPairingCode_part000 envEx None stTaken))
      = Some (''A0A0A0A0_1234'', [(''A0A0A0A0'', ''pending''), (''A0A0A0A0_1234'', ''pending'')])"
proof -
  have r: "random (envEx\<lparr>now := 1700000005678\<rparr>) = rndAlt" by (simp add: envEx_def)
  have t: "even (rndPos stTaken)" "map_of (pairingCodes stTaken) ''A0A0A0A0'' \<noteq> None"
    by (simp_all add: stTaken_def)
  show ?thesis
    by (simp add: create_server_envEx create_server_rndAlt[OF r] create_part000_taken[OF t] returned_def)
       (simp add: stSrv_def stTaken_def sessEx_def)
qed

section \<open>The endpoint POST /generate-code\<close>

lemma create_server_throws:
  "isl (generateNewPairingCode_server E ph st)
   = (\<forall>k\<le>frames E. \<not> good (sample (random E) (rndPos st + CODE_LENGTH * k)))"
proof (cases "generateAlphanumericCode (random E) (frames E) (rndPos st)")
  case (Inl x)
  from gen_Inl[OF Inl] Inl show ?thesis
    by (simp add: generateNewPairingCode_server_def split: prod.splits)
next
  case (Inr y)
  from gen_Inr[OF Inr] Inr show ?thesis
    by (auto simp add: generateNewPairingCode_server_def split: prod.splits)
qed

lemma create_server_Inl:
  "generateNewPairingCode_server E ph st = Inl (e, st') \<Longrightarrow> st'\<lparr>rndPos := rndPos st\<rparr> = st"
  by (auto simp add: generateNewPairingCode_server_def split: sum.splits)

lemma create_part000_throws:
  "isl (generateNewPairingCode_part000 E ph st) = isl (pickCode_part000 E (pairingCodes st) (rndPos st))"
  by (auto simp add: generateNewPairingCode_part000_def split: sum.splits)

lemma create_part000_Inl:
  "generateNewPairingCode_part000 E ph st = Inl (e, st') \<Longrightarrow> st'\<lparr>rndPos := rndPos st\<rparr> = st"
  by (auto simp add: generateNewPairingCode_part000_def split: sum.splits)

lemma doWhile_Inl:
  "doWhile rnd d store p n = Inl x \<Longrightarrow>
   \<exists>q\<ge>p. \<forall>k\<le>d. \<not> good (sample rnd (q + CODE_LENGTH * k))"
proof (induction rnd d store p n rule: doWhile.induct)
  case (1 rnd d store p n)
  show ?case
  proof (cases "generateAlphanumericCode rnd d p")
    case (Inl y)
    from gen_Inl[OF Inl] show ?thesis by blast
  next
    case (Inr y)
    obtain c1 p1 where y: "y = (c1, p1)" by (cases y)
    from gen_Inr[OF Inr] y have le: "p \<le> p1" by auto
    from "1.prems" Inr y have cont: "map_of store c1 \<noteq> None \<and> Suc n < 10"
      and rest: "doWhile rnd d store p1 (Suc n) = Inl x"
      by (subst (asm) doWhile.simps, simp split: if_splits)+
    from "1.IH"[OF Inr[unfolded y] refl cont rest] obtain q where
      "p1 \<le> q" "\<forall>k\<le>d. \<not> good (sample rnd (q + CODE_LENGTH * k))" by blast
    with le show ?thesis by (intro exI[of _ q]) simp
  qed
qed

lemma doWhile_position:
  "doWhile rnd d store p n = Inr (c, m, q) \<Longrightarrow> p \<le> q"
proof (induction rnd d store p n rule: doWhile.induct)
  case (1 rnd d store p n)
  from "1.prems" obtain c1 p1 where g: "generateAlphanumericCode rnd d p = Inr (c1, p1)"
    by (subst (asm) doWhile.simps) (auto split: sum.splits)
  from gen_Inr[OF g] have le: "p \<le> p1" by auto
  show ?case
  proof (cases "map_of store c1 \<noteq> None \<and> Suc n < 10")
    case True
    with "1.prems" g have "doWhile rnd d store p1 (Suc n) = Inr (c, m, q)"
      by (subst (asm) doWhile.simps) simp
    from "1.IH"[OF g refl True this] le show ?thesis by simp
  next
    case False
    with "1.prems" g have "q = p1" by (subst (asm) doWhile.simps) auto
    with le show ?thesis by simp
  qed
qed

lemma pickCode_Inl:
  assumes "isl (pickCode_part000 E store p)"
  shows "\<exists>q\<ge>p. \<forall>k\<le>frames E. \<not> good (sample (random E) (q + CODE_LENGTH * k))"
proof (cases "doWhile (random E) (frames E) store p 0")
  case (Inl x)
  from doWhile_Inl[OF Inl] show ?thesis .
next
  case (Inr y)
  obtain c0 n p1 where y: "y = (c0, n, p1)" by (cases y)
  from doWhile_position[OF Inr[unfolded y]] have le: "p \<le> p1" .
  from assms Inr y obtain x where "generateAlphanumericCode (random E) (frames E) p1 = Inl x"
    by (auto simp add: pickCode_part000_def split: if_splits sum.splits)
  from gen_Inl[OF this] le show ?thesis by (intro exI[of _ p1]) simp
qed

lemma pickCode_first_throw:
  "(\<forall>k\<le>frames E. \<not> good (sample (random E) (p + CODE_LENGTH * k))) \<Longrightarrow> isl (pickCode_part000 E store p)"
  by (simp add: pickCode_part000_def doWhile_first_throw)

lemma generate_code_server_failure:
  "(\<exists>m. fst (generate_code_server E ph st) = Failure m)
   = (phoneRejected ph \<or> (botStatus st \<noteq> ''qr_ready'' \<and> botStatus st \<noteq> ''online'')
      \<or> (\<forall>k\<le>frames E. \<not> good (sample (random E) (rndPos st + CODE_LENGTH * k))))"
  using create_server_throws[of E "Some (''+254'' @ the ph)" st]
  by (auto simp add: generate_code_server_def split: sum.splits)

lemma generate_code_part000_failure:
  "(\<exists>m. fst (generate_code_part000 E ph st) = Failure m)
   = (phoneRejected ph \<or> (botStatus st \<noteq> ''qr_ready'' \<and> botStatus st \<noteq> ''online'')
      \<or> isl (pickCode_part000 E (pairingCodes st) (rndPos st)))"
  using create_part000_throws[of E "Some (''+254'' @ the ph)" st]
  by (auto simp add: generate_code_part000_def split: sum.splits)

lemma generate_code_server_unchanged:
  "fst (generate_code_server E ph st) = Failure m \<Longrightarrow>
   (snd (generate_code_server E ph st))\<lparr>rndPos := rndPos st\<rparr> = st"
  by (auto simp add: generate_code_server_def split: sum.splits if_splits dest: create_server_Inl)

lemma generate_code_part000_unchanged:
  "fst (generate_code_part000 E ph st) = Failure m \<Longrightarrow>
   (snd (generate_code_part000 E ph st))\<lparr>rndPos := rndPos st\<rparr> = st"
  by (auto simp add: generate_code_part000_def split: sum.splits if_splits dest: create_part000_Inl)

lemma generate_code_server_success:
  assumes "\<not> (\<exists>m. fst (generate_code_server E ph st) = Failure m)"
  shows "\<exists>c. fst (generate_code_server E ph st)
            = Success c (''+254'' @ the ph) (generateSessionId E) (now E + 600000)
          \<and> map_option (\<lambda>d. (status d, phoneNumber d, expiresAt d))
               (map_of (pairingCodes (snd (generate_code_server E ph st))) c)
              = Some (''pending'', Some (''+254'' @ the ph), now E + 600000)"
proof -
  have "phoneRejected ph \<Longrightarrow> \<exists>m. fst (generate_code_server E ph st) = Failure m"
    by (simp add: generate_code_server_def)
  moreover have "botStatus st \<noteq> ''qr_ready'' \<and> botStatus st \<noteq> ''online''
      \<Longrightarrow> \<exists>m. fst (generate_code_server E ph st) = Failure m"
    by (simp add: generate_code_server_def)
  ultimately have ok: "\<not> phoneRejected ph" "\<not> (botStatus st \<noteq> ''qr_ready'' \<and> botStatus st \<noteq> ''online'')"
    using assms by blast+
  show ?thesis
  proof (cases "generateNewPairingCode_server E (Some (''+254'' @ the ph)) st")
    case (Inl x)
    with ok assms show ?thesis by (auto simp add: generate_code_server_def split: prod.splits)
  next
    case (Inr y)
    obtain c sid ex st' where y: "y = ((c, sid, ex), st')" by (cases y) auto
    from create_server_Some[OF Inr[unfolded y]] Inr y ok show ?thesis
      by (auto simp add: generate_code_server_def AList.update_conv')
  qed
qed

lemma generate_code_part000_success:
  assumes "\<not> (\<exists>m. fst (generate_code_part000 E ph st) = Failure m)"
  shows "\<exists>c. fst (generate_code_part000 E ph st)
            = Success c (''+254'' @ the ph) (generateSessionId E) (now E + 600000)
          \<and> map_option (\<lambda>d. (status d, phoneNumber d, expiresAt d))
               (map_of (pairingCodes (snd (generate_code_part000 E ph st))) c)
              = Some (''pending'', Some (''+254'' @ the ph), now E + 600000)"
proof -
  have "phoneRejected ph \<Longrightarrow> \<exists>m. fst (generate_code_part000 E ph st) = Failure m"
    by (simp add: generate_code_part000_def)
  moreover have "botStatus st \<noteq> ''qr_ready'' \<and> botStatus st \<noteq> ''online''
      \<Longrightarrow> \<exists>m. fst (generate_code_part000 E ph st) = Failure m"
    by (simp add: generate_code_part000_def)
  ultimately have ok: "\<not> phoneRejected ph" "\<not> (botStatus st \<noteq> ''qr_ready'' \<and> botStatus st \<noteq> ''online'')"
    using assms by blast+
  show ?thesis
  proof (cases "generateNewPairingCode_part000 E (Some (''+254'' @ the ph)) st")
    case (Inl x)
    with ok assms show ?thesis by (auto simp add: generate_code_part000_def split: prod.splits)
  next
    case (Inr y)
    obtain c sid ex st' where y: "y = ((c, sid, ex), st')" by (cases y) auto
    from create_part000_Some[OF Inr[unfolded y]] Inr y ok show ?thesis
      by (auto simp add: generate_code_part000_def AList.update_conv')
  qed
qed

lemma phone_ok: "\<not> phoneRejected (Some ''723278526'')"
  by (simp add: phoneRejected_def isDigit_def)

lemma phone_short: "phoneRejected (Some ''72327852'')"
  by (simp add: phoneRejected_def)

lemma create_server_rndAllA:
  "generateNewPairingCode_server envAllA ph st = Inl (RangeError, st\<lparr>rndPos := rndPos st + 63208\<rparr>)"
  by (simp add: generateNewPairingCode_server_def envAllA_def gen_rndAllA)

text \<open>
  C8, as stated, fails. With a nine-digit number and the state \<open>'qr_ready'\<close> (or \<open>'online'\<close>)
  the handler still answers with a failure when the generator runs out of stack: the
  \<open>RangeError\<close> is caught by the handler's \<open>catch\<close>.
\<close>

theorem generate_code_catch_counterexample:
  "\<not> phoneRejected (Some ''723278526'') \<and> botStatus stSrv = ''qr_ready'' \<and> botStatus stEmpty = ''online''
   \<and> generate_code_server envAllA (Some ''723278526'') stSrv
      = (Failure ''Error generating pairing code'', stSrv\<lparr>rndPos := 63208\<rparr>)
   \<and> generate_code_part000 envAllA (Some ''723278526'') stEmpty
      = (Failure ''Error generating code'', stEmpty\<lparr>rndPos := 63208\<rparr>)"
  by (simp add: phone_ok generate_code_server_def generate_code_part000_def
      create_server_rndAllA create_part000_rndAllA)
     (simp add: stSrv_def stEmpty_def)

text \<open>
  C8, amended. In both variants the handler answers with a failure exactly when the phone
  number fails the check (absent, empty, or not nine digits), or \<open>botStatus\<close> is neither
  \<open>'qr_ready'\<close> nor \<open>'online'\<close>, or generating the code throws. In \<open>server.js\<close> that is when
  none of the samples the call stack has room for has a letter and a digit; in \<open>part_000\<close>
  it is when one of the generator calls of \<open>generateNewPairingCode\<close> throws, which takes
  such a run of samples somewhere from the current position on, and happens when the run
  starts at the current position. A failure leaves the map and every other variable as
  they were (only random numbers were consumed). In every other case the handler returns
  a success with the code, the session id and \<open>expiresAt = now + 600000\<close>, and the map
  holds a pending session for \<open>'+254'\<close> followed by the number under that code.
\<close>

theorem generate_code_rejects_exactly:
  "((\<exists>m. fst (generate_code_server E ph sv) = Failure m)
      = (phoneRejected ph \<or> (botStatus sv \<noteq> ''qr_ready'' \<and> botStatus sv \<noteq> ''online'')
         \<or> (\<forall>k\<le>frames E. \<not> good (sample (random E) (rndPos sv + CODE_LENGTH * k)))))
   \<and> ((\<exists>m. fst (generate_code_server E ph sv) = Failure m)
        \<longrightarrow> (snd (generate_code_server E ph sv))\<lparr>rndPos := rndPos sv\<rparr> = sv)
   \<and> (\<not> (\<exists>m. fst (generate_code_server E ph sv) = Failure m) \<longrightarrow>
        (\<exists>c. fst (generate_code_server E ph sv)
            = Success c (''+254'' @ the ph) (generateSessionId E) (now E + 600000)
          \<and> map_option (\<lambda>d. (status d, phoneNumber d, expiresAt d))
               (map_of (pairingCodes (snd (generate_code_server E ph sv))) c)
              = Some (''pending'', Some (''+254'' @ the ph), now E + 600000)))
   \<and> ((\<exists>m. fst (generate_code_part000 E ph sp) = Failure m)
      = (phoneRejected ph \<or> (botStatus sp \<noteq> ''qr_ready'' \<and> botStatus sp \<noteq> ''online'')
         \<or> isl (pickCode_part000 E (pairingCodes sp) (rndPos sp))))
   \<and> (isl (pickCode_part000 E (pairingCodes sp) (rndPos sp)) \<longrightarrow>
        (\<exists>q\<ge>rndPos sp. \<forall>k\<le>frames E. \<not> good (sample (random E) (q + CODE_LENGTH * k))))
   \<and> ((\<forall>k\<le>frames E. \<not> good (sample (random E) (rndPos sp + CODE_LENGTH * k)))
        \<longrightarrow> isl (pickCode_part000 E (pairingCodes sp) (rndPos sp)))
   \<and> ((\<exists>m. fst (generate_code_part000 E ph sp) = Failure m)
        \<longrightarrow> (snd (generate_code_part000 E ph sp))\<lparr>rndPos := rndPos sp\<rparr> = sp)
   \<and> (\<not> (\<exists>m. fst (generate_code_part000 E ph sp) = Failure m) \<longrightarrow>
        (\<exists>c. fst (generate_code_part000 E ph sp)
            = Success c (''+254'' @ the ph) (generateSessionId E) (now E + 600000)
          \<and> map_option (\<lambda>d. (status d, phoneNumber d, expiresAt d))
               (map_of (pairingCodes (snd (generate_code_part000 E ph sp))) c)
              = Some (''pending'', Some (''+254'' @ the ph), now E + 600000)))"
proof (intro conjI impI)
  show "(\<exists>m. fst (generate_code_server E ph sv) = Failure m)
      = (phoneRejected ph \<or> (botStatus sv \<noteq> ''qr_ready'' \<and> botStatus sv \<noteq> ''online'')
         \<or> (\<forall>k\<le>frames E. \<not> good (sample (random E) (rndPos sv + CODE_LENGTH * k))))"
    by (rule generate_code_server_failure)
  show "(\<exists>m. fst (generate_code_part000 E ph sp) = Failure m)
      = (phoneRejected ph \<or> (botStatus sp \<noteq> ''qr_ready'' \<and> botStatus sp \<noteq> ''online'')
         \<or> isl (pickCode_part000 E (pairingCodes sp) (rndPos sp)))"
    by (rule generate_code_part000_failure)
next
  assume "\<exists>m. fst (generate_code_server E ph sv) = Failure m"
  then show "(snd (generate_code_server E ph sv))\<lparr>rndPos := rndPos sv\<rparr> = sv"
    using generate_code_server_unchanged by blast
next
  assume "\<not> (\<exists>m. fst (generate_code_server E ph sv) = Failure m)"
  then show "\<exists>c. fst (generate_code_server E ph sv)
            = Success c (''+254'' @ the ph) (generateSessionId E) (now E + 600000)
          \<and> map_option (\<lambda>d. (status d, phoneNumber d, expiresAt d))
               (map_of (pairingCodes (snd (generate_code_server E ph sv))) c)
              = Some (''pending'', Some (''+254'' @ the ph), now E + 600000)"
    by (rule generate_code_server_success)
next
  assume "isl (pickCode_part000 E (pairingCodes sp) (rndPos sp))"
  then show "\<exists>q\<ge>rndPos sp. \<forall>k\<le>frames E. \<not> good (sample (random E) (q + CODE_LENGTH * k))"
    by (rule pickCode_Inl)
next
  assume "\<forall>k\<le>frames E. \<not> good (sample (random E) (rndPos sp + CODE_LENGTH * k))"
  then show "isl (pickCode_part000 E (pairingCodes sp) (rndPos sp))"
    by (rule pickCode_first_throw)
next
  assume "\<exists>m. fst (generate_code_part000 E ph sp) = Failure m"
  then show "(snd (generate_code_part000 E ph sp))\<lparr>rndPos := rndPos sp\<rparr> = sp"
    using generate_code_part000_unchanged by blast
next
  assume "\<not> (\<exists>m. fst (generate_code_part000 E ph sp) = Failure m)"
  then show "\<exists>c. fst (generate_code_part000 E ph sp)
            = Success c (''+254'' @ the ph) (generateSessionId E) (now E + 600000)
          \<and> map_option (\<lambda>d. (status d, phoneNumber d, expiresAt d))
               (map_of (pairingCodes (snd (generate_code_part000 E ph sp))) c)
              = Some (''pending'', Some (''+254'' @ the ph), now E + 600000)"
    by (rule generate_code_part000_success)
qed

text \<open>
  The scenario of the specification: number 723278526 while the state is \<open>'qr_ready'\<close> (or
  \<open>'online'\<close>) gives an 8-character code; the same request while \<open>'disconnected'\<close>, an
  8-digit number, or a random source that never draws a digit gives a failure, and the
  map is the same afterwards.
\<close>

theorem generate_code_rejects_exactly_witness:
  "\<not> phoneRejected (Some ''723278526'') \<and> botStatus stSrv = ''qr_ready'' \<and> botStatus stEmpty = ''online''
   \<and> fst (generate_code_server envEx (Some ''723278526'') stSrv)
      = Success ''A0A0A0A0'' ''+254723278526'' ''IAN TECH_1700000001234_ABABAB'' 1700000601234
   \<and> fst (generate_code_part000 envEx (Some ''723278526'') stEmpty)
      = Success ''A0A0A0A0'' ''+254723278526'' ''IAN TECH_1700000001234_ABABAB'' 1700000601234
   \<and> botStatus stDisc = ''disconnected''
   \<and> generate_code_server envEx (Some ''723278526'') stDisc
      = (Failure ''WhatsApp connection not ready. Please wait for QR code...'', stDisc)
   \<and> phoneRejected (Some ''72327852'')
   \<and> generate_code_part000 envEx (Some ''72327852'') stEmpty
      = (Failure ''Please enter a valid 9-digit phone number'', stEmpty)
   \<and> fst (generate_code_server envAllA (Some ''723278526'') stSrv) = Failure ''Error generating pairing code''
   \<and> pairingCodes (snd (generate_code_server envAllA (Some ''723278526'') stSrv)) = pairingCodes stSrv
   \<and> fst (generate_code_part000 envAllA (Some ''723278526'') stEmpty) = Failure ''Error generating code''
   \<and> pairingCodes (snd (generate_code_part000 envAllA (Some ''723278526'') stEmpty)) = pairingCodes stEmpty"
proof -
  have b: "botStatus stSrv = ''qr_ready''" "botStatus stEmpty = ''online''" "botStatus stDisc = ''disconnected''"
    by (simp_all add: stSrv_def stEmpty_def stDisc_def)
  have bad: "\<forall>k\<le>frames envAllA. \<not> good (sample (random envAllA) (p + CODE_LENGTH * k))" for p
    by (simp add: envAllA_def sample_rndAllA not_good_AAAAAAAA)
  have ok: "\<not> (\<forall>k\<le>frames envEx. \<not> good (sample (random envEx) (rndPos stSrv + CODE_LENGTH * k)))"
    using good_rndAlt by (auto simp add: envEx_def)
  note t1 = generate_code_rejects_exactly[of envEx "Some ''723278526''" stSrv stEmpty]
  note t2 = generate_code_rejects_exactly[of envEx "Some ''723278526''" stDisc stEmpty]
  note t3 = generate_code_rejects_exactly[of envEx "Some ''72327852''" stSrv stEmpty]
  note t4 = generate_code_rejects_exactly[of envAllA "Some ''723278526''" stSrv stEmpty]
  from t1 ok b phone_ok
  have "\<not> (\<exists>m. fst (generate_code_server envEx (Some ''723278526'') stSrv) = Failure m)" by simp
  moreover from t2 b
  have "\<exists>m. fst (generate_code_server envEx (Some ''723278526'') stDisc) = Failure m" by simp
  moreover from t3 phone_short
  have "\<exists>m. fst (generate_code_part000 envEx (Some ''72327852'') stEmpty) = Failure m" by simp
  moreover from t4 bad[of "rndPos stSrv"] bad[of "rndPos stEmpty"]
  have "(snd (generate_code_server envAllA (Some ''723278526'') stSrv))\<lparr>rndPos := rndPos stSrv\<rparr> = stSrv"
    "(snd (generate_code_part000 envAllA (Some ''723278526'') stEmpty))\<lparr>rndPos := rndPos stEmpty\<rparr> = stEmpty"
    by blast+
  ultimately show ?thesis
    by (simp add: b phone_ok phone_short generate_code_server_def generate_code_part000_def
        create_server_envEx create_part000_envEx_empty create_server_rndAllA create_part000_rndAllA)
qed

section \<open>The database-backed endpoints\<close>

lemma filter_digits: "list_all isDigit s \<Longrightarrow> filter isDigit s = s"
  by (simp add: list_all_iff)

text \<open>
  C10. When the collection holds a pending document for the request's full number whose
  \<open>expiresAt\<close> lies strictly after the current instant, \<open>POST /api/generate-code\<close> with a
  well-formed number answers with the pairing code and \<open>expiresAt\<close> of such a document and
  leaves the database as it was: no document is inserted. With the unique index on
  \<open>fullNumber\<close> that document is the one given.
\<close>

theorem existing_code_reused:
  assumes "rq_phoneNumber rq = Some ph" and "\<not> phoneInvalid (Some ph)"
    and "d \<in> set (PairingCode D)"
    and "pc_fullNumber d = (case rq_countryCode rq of None \<Rightarrow> ''+254'' | Some c \<Rightarrow> c) @ ph"
    and "pc_status d = ''pending''" and "pc_expiresAt d > now E"
  shows "\<exists>d'. d' \<in> set (PairingCode D) \<and> pc_fullNumber d' = pc_fullNumber d
           \<and> pc_status d' = ''pending'' \<and> pc_expiresAt d' > now E
           \<and> api_generate_code E rq D
               = Some (ExistingCode (pc_pairingCode d') (pc_fullNumber d') (pc_expiresAt d'), D)
           \<and> (distinct (map pc_fullNumber (PairingCode D)) \<longrightarrow> d' = d)"
proof -
  let ?cc = "case rq_countryCode rq of None \<Rightarrow> ''+254'' | Some c \<Rightarrow> c"
  let ?P = "\<lambda>x. pc_fullNumber x = ?cc @ ph \<and> pc_status x = ''pending'' \<and> pc_expiresAt x > now E"
  from assms(2) have digits: "filter isDigit ph = ph"
    by (auto simp add: phoneInvalid_def filter_digits)
  from assms(3-6) have "find ?P (PairingCode D) \<noteq> None" by (auto simp add: find_None_iff)
  then obtain d' where f: "find ?P (PairingCode D) = Some d'" by auto
  then have mem: "d' \<in> set (PairingCode D)" and P: "?P d'"
    by (auto simp add: find_Some_iff)
  have run: "api_generate_code E rq D
      = Some (ExistingCode (pc_pairingCode d') (pc_fullNumber d') (pc_expiresAt d'), D)"
    using assms(1,2) f by (simp add: api_generate_code_def findOne_def digits Let_def)
  have uniq: "d' = d" if dist: "distinct (map pc_fullNumber (PairingCode D))"
  proof -
    from dist have "inj_on pc_fullNumber (set (PairingCode D))" by (simp add: distinct_map)
    moreover from P assms(4) have "pc_fullNumber d' = pc_fullNumber d" by simp
    ultimately show ?thesis using mem assms(3) by (auto dest: inj_onD)
  qed
  from mem P assms(4) run uniq show ?thesis by auto
qed

text \<open>
  A second request for +254723278526 while code 482913 is pending and valid returns that
  code and leaves the database unchanged.
\<close>

theorem existing_code_reused_witness:
  "rq_phoneNumber rqEx = Some ''723278526'' \<and> \<not> phoneInvalid (Some ''723278526'')
   \<and> docEx ''723278526'' ''482913'' ''pending'' 1700000301234 None \<in> set (PairingCode dbEx)
   \<and> distinct (map pc_fullNumber (PairingCode dbEx))
   \<and> api_generate_code envEx rqEx dbEx = Some (ExistingCode ''482913'' ''+254723278526'' 1700000301234, dbEx)"
proof -
  have a: "rq_phoneNumber rqEx = Some ''723278526''" by (simp add: rqEx_def)
  have b: "\<not> phoneInvalid (Some ''723278526'')" by (simp add: phoneInvalid_def isDigit_def)
  have c: "docEx ''723278526'' ''482913'' ''pending'' 1700000301234 None \<in> set (PairingCode dbEx)"
    by (simp add: dbEx_def)
  have d: "pc_fullNumber (docEx ''723278526'' ''482913'' ''pending'' 1700000301234 None)
      = (case rq_countryCode rqEx of None \<Rightarrow> ''+254'' | Some c \<Rightarrow> c) @ ''723278526''"
    by (simp add: docEx_def rqEx_def)
  have e: "pc_status (docEx ''723278526'' ''482913'' ''pending'' 1700000301234 None) = ''pending''"
    by (simp add: docEx_def)
  have f: "pc_expiresAt (docEx ''723278526'' ''482913'' ''pending'' 1700000301234 None) > now envEx"
    by (simp add: docEx_def envEx_def)
  have g: "distinct (map pc_fullNumber (PairingCode dbEx))" by (simp add: dbEx_def docEx_def)
  from existing_code_reused[OF a b c d e f] g a b c show ?thesis
    by (auto simp add: docEx_def)
qed

text \<open>
  C6 at a failing input. \<open>POST /api/pairing-linked/:code\<close> selects the document by its code
  alone: a document whose status is \<open>'used'\<close> becomes \<open>'active'\<close> and gets a new \<open>linkedAt\<close>.
  \<open>verifyPairingCodeInBot\<close>, which checks for \<open>'pending'\<close> first, leaves the same document
  alone.
\<close>

theorem pairing_linked_overwrites_terminal:
  "map (\<lambda>d. (pc_pairingCode d, pc_status d, pc_linkedAt d)) (PairingCode dbEx)
     = [(''482913'', ''pending'', None), (''651077'', ''used'', Some 1699999990000)]
   \<and> fst (api_pairing_linked envEx ''651077'' dbEx)
   \<and> map (\<lambda>d. (pc_pairingCode d, pc_status d, pc_linkedAt d))
        (PairingCode (snd (api_pairing_linked envEx ''651077'' dbEx)))
     = [(''482913'', ''pending'', None), (''651077'', ''active'', Some 1700000001234)]
   \<and> verifyPairingCodeInBot envEx ''651077'' dbEx = (False, dbEx)"
  by (simp add: api_pairing_linked_def verifyPairingCodeInBot_def api_pairing_status_def findOne_def
      dbEx_def docEx_def envEx_def)

section \<open>The keys of the map and the whole handler\<close>

text \<open>
  The hypothesis of distinct keys used above is an invariant: the map starts empty, and
  creating, expiring, sweeping and linking keep the keys distinct.
\<close>

lemma distinct_create_server:
  "distinct (map fst (pairingCodes st)) \<Longrightarrow> generateNewPairingCode_server E ph st = Inr (r, st')
   \<Longrightarrow> distinct (map fst (pairingCodes st'))"
  by (cases r) (auto dest!: create_server_Some simp add: AList.distinct_update)

lemma distinct_create_part000:
  "distinct (map fst (pairingCodes st)) \<Longrightarrow> generateNewPairingCode_part000 E ph st = Inr (r, st')
   \<Longrightarrow> distinct (map fst (pairingCodes st'))"
  by (cases r) (auto dest!: create_part000_Some simp add: AList.distinct_update)

lemma distinct_expire:
  "distinct (map fst (pairingCodes st)) \<Longrightarrow> distinct (map fst (pairingCodes (expire c st)))"
  by (simp add: expire_def AList.distinct_delete split: option.splits)

lemma distinct_sweep:
  "distinct (map fst (pairingCodes st)) \<Longrightarrow> distinct (map fst (pairingCodes (sweep t st)))"
  using sweepLoop_prefix[of "[]" "pairingCodes st" t 0]
  by (simp add: sweep_def distinct_map_filter)

lemma keys_onOpen_part000:
  "distinct (map fst (pairingCodes st)) \<Longrightarrow>
   map fst (pairingCodes (onOpen_part000 E uid st)) = map fst (pairingCodes st)"
  by (simp add: onOpen_part000_map case_prod_beta)

lemma keys_onOpen_server:
  "distinct (map fst (pairingCodes st)) \<Longrightarrow>
   map fst (pairingCodes (onOpen_server E st)) = map fst (pairingCodes st)"
  by (simp add: onOpen_server_map case_prod_beta)

text \<open>
  For an event without a QR code the \<open>connection.update\<close> handler is the \<open>open\<close> branch or
  the \<open>close\<close> branch.
\<close>

lemma connection_update_part000_open:
  "qr u = None \<Longrightarrow> connection u = Some ''open'' \<Longrightarrow>
   connection_update_part000 E toDataURL uid u st = onOpen_part000 E uid st"
  by (simp add: connection_update_part000_def)

lemma connection_update_part000_close:
  "qr u = None \<Longrightarrow> connection u = Some ''close'' \<Longrightarrow>
   connection_update_part000 E toDataURL uid u st = onClose_part000 E (statusCode u) st"
  by (simp add: connection_update_part000_def)

lemma connection_update_server_open:
  "qr u = None \<Longrightarrow> connection u = Some ''open'' \<Longrightarrow>
   connection_update_server E DR toDataURL u st = onOpen_server E st"
  by (simp add: connection_update_server_def)

lemma connection_update_server_close:
  "qr u = None \<Longrightarrow> connection u = Some ''close'' \<Longrightarrow>
   connection_update_server E DR toDataURL u st = onClose_server E DR (statusCode u) st"
  by (simp add: connection_update_server_def)

end
